theory Spec2Isabelle
  imports Complex_Main "HOL-Library.Sublist" "HOL-Library.AList"
    "HOL-Library.Char_ord" "HOL-Library.List_Lexorder"
begin

section \<open>Text and scalar values\<close>

text \<open>
  A Python \<^verbatim>\<open>str\<close> is modelled by the list of its UTF-8 bytes. Every character the
  source tests for (letters, digits, \<^verbatim>\<open>Q _ - + $ , .\<close>) is ASCII, one byte, and an ASCII
  byte never occurs inside the encoding of another code point, so searching and removing
  ASCII text is the same on bytes as on code points. Case conversion is modelled on the
  ASCII letters; bytes of other code points are left as they are (Python's case mapping of
  non-ASCII letters is not modelled). Likewise the letters of \<^verbatim>\<open>str.title()\<close> and the
  digits of \<^verbatim>\<open>\d\<close> and \<^verbatim>\<open>int()\<close> are the ASCII ones. White space is modelled in full.
\<close>

definition upper_c :: "char \<Rightarrow> char" where
  "upper_c c =
     (case map_of (zip ''abcdefghijklmnopqrstuvwxyz'' ''ABCDEFGHIJKLMNOPQRSTUVWXYZ'') c of
        Some u \<Rightarrow> u
      | None \<Rightarrow> c)"

definition lower_c :: "char \<Rightarrow> char" where
  "lower_c c =
     (case map_of (zip ''ABCDEFGHIJKLMNOPQRSTUVWXYZ'' ''abcdefghijklmnopqrstuvwxyz'') c of
        Some l \<Rightarrow> l
      | None \<Rightarrow> c)"

definition str_upper :: "string \<Rightarrow> string" where
  "str_upper s = map upper_c s"

definition str_lower :: "string \<Rightarrow> string" where
  "str_lower s = map lower_c s"

definition is_digit :: "char \<Rightarrow> bool" where
  "is_digit c = (c \<in> set ''0123456789'')"

text \<open>\<^verbatim>\<open>s.startswith(p)\<close> and \<^verbatim>\<open>p in s\<close> (substring test), by recursion on the text.\<close>

fun starts_with :: "string \<Rightarrow> string \<Rightarrow> bool" where
  "starts_with s [] = True"
| "starts_with [] (p # ps) = False"
| "starts_with (c # cs) (p # ps) = (c = p \<and> starts_with cs ps)"

fun str_contains :: "string \<Rightarrow> string \<Rightarrow> bool" where
  "str_contains [] p = (p = [])"
| "str_contains (c # cs) p = (starts_with (c # cs) p \<or> str_contains cs p)"

text \<open>
  A scalar held by a pandas cell: \<^verbatim>\<open>None\<close>, the float NaN, a finite number (idealised as a
  real number: the rounding of floats and the wrap-around of an \<^verbatim>\<open>int64\<close> column are not
  modelled), the two float infinities, or a string.
\<close>

datatype cell = PNone | NaN | Num real | PosInf | NegInf | Str string

text \<open>\<^verbatim>\<open>pd.isna(value)\<close> on a scalar.\<close>

definition isna :: "cell \<Rightarrow> bool" where
  "isna v = (v = PNone \<or> v = NaN)"

datatype exn = ValueError | TypeError | AttributeError | KeyError


section \<open>The loader: \<^verbatim>\<open>HousingDataLoader\<close> (data\_loader.py)\<close>

subsection \<open>\<^verbatim>\<open>get_column_value\<close>\<close>

text \<open>
  \<^verbatim>\<open>self.column_map\<close> is a dict from the standard name to the actual column name; the row
  is a \<^verbatim>\<open>pd.Series\<close>, a mapping from column name to scalar.
\<close>

definition get_column_value ::
  "(string \<rightharpoonup> string) \<Rightarrow> (string \<rightharpoonup> cell) \<Rightarrow> string \<Rightarrow> cell \<Rightarrow> cell" where
  "get_column_value column_map row column_type default_value =
     (case column_map column_type of
        None \<Rightarrow> default_value
      | Some column_name \<Rightarrow>
          (case row column_name of
             None \<Rightarrow> default_value
           | Some v \<Rightarrow> if isna v then default_value else v))"

subsection \<open>\<^verbatim>\<open>calculate_carpet_area\<close>\<close>

text \<open>
  The dict \<^verbatim>\<open>area_map\<close> in its insertion order, which is the order \<^verbatim>\<open>.items()\<close> iterates
  in. The argument of \<open>calculate_carpet_area\<close> is the text \<^verbatim>\<open>str(configuration)\<close>.
\<close>

definition area_map :: "(string \<times> int) list" where
  "area_map =
     [(''1BHK'', 650), (''2BHK'', 950), (''3BHK'', 1250), (''4BHK'', 1600),
      (''5BHK'', 2100), (''STUDIO'', 400), (''1RK'', 350), (''2BHK+STUDY'', 1100),
      (''3BHK+STUDY'', 1400), (''4BHK+STUDY'', 1800)]"

fun area_loop :: "(string \<times> int) list \<Rightarrow> string \<Rightarrow> int" where
  "area_loop [] config_upper = 1000"
| "area_loop ((config_pattern, area) # rest) config_upper =
     (if str_contains config_upper config_pattern then area else area_loop rest config_upper)"

definition calculate_carpet_area :: "string \<Rightarrow> int" where
  "calculate_carpet_area configuration = area_loop area_map (str_upper configuration)"

subsection \<open>\<^verbatim>\<open>calculate_price_per_sqft\<close>\<close>

definition calculate_price_per_sqft :: "real \<Rightarrow> int \<Rightarrow> real" where
  "calculate_price_per_sqft ticket_price carpet_area =
     (if carpet_area > 0 then (ticket_price * 10000000) / real_of_int carpet_area else 0)"

subsection \<open>\<^verbatim>\<open>extract_quarter_year\<close>\<close>

text \<open>
  The three regular expressions of \<^verbatim>\<open>patterns\<close>, in list order:
  \<^item> \<open>Q_Year\<close> is \<^verbatim>\<open>Q(\d)[_\-]?(\d{4})\<close>,
  \<^item> \<open>Year_Q\<close> is \<^verbatim>\<open>(\d{4})[_\-]?Q(\d)\<close>,
  \<^item> \<open>Year_only\<close> is \<^verbatim>\<open>(\d{4})\<close>.

  \<open>match_at p s\<close> gives the captured groups when \<open>p\<close> matches at the start of \<open>s\<close>;
  \<open>re_search p s\<close> is \<^verbatim>\<open>re.search\<close>: the match at the leftmost position that has one.
  \<^verbatim>\<open>\d\<close> is modelled on the ASCII digits.
\<close>

datatype pattern = Q_Year | Year_Q | Year_only

definition patterns :: "pattern list" where
  "patterns = [Q_Year, Year_Q, Year_only]"

definition pattern_startswith_Q :: "pattern \<Rightarrow> bool" where
  "pattern_startswith_Q p = (p = Q_Year)"

definition is_sep :: "char \<Rightarrow> bool" where
  "is_sep c = (c = CHR ''_'' \<or> c = CHR ''-'')"

text \<open>\<^verbatim>\<open>(\d{4})\<close> at the start of the text: the four digits and what follows them.\<close>

definition digits4 :: "string \<Rightarrow> (string \<times> string) option" where
  "digits4 s =
     (if 4 \<le> length s \<and> list_all is_digit (take 4 s) then Some (take 4 s, drop 4 s) else None)"

text \<open>
  \<^verbatim>\<open>[_\-]?\<close> followed by the rest \<open>m\<close> of a pattern: the separator is taken when there
  is one, and given back when the rest does not match after it.
\<close>

definition opt_sep :: "(string \<Rightarrow> 'a option) \<Rightarrow> string \<Rightarrow> 'a option" where
  "opt_sep m s =
     (case s of
        [] \<Rightarrow> m []
      | c # r \<Rightarrow>
          if is_sep c then (case m r of Some g \<Rightarrow> Some g | None \<Rightarrow> m s) else m s)"

definition q_digit :: "string \<Rightarrow> (string \<times> string) option" where
  "q_digit s =
     (case s of
        q # d # r \<Rightarrow> if q = CHR ''Q'' \<and> is_digit d then Some ([d], r) else None
      | _ \<Rightarrow> None)"

fun match_at :: "pattern \<Rightarrow> string \<Rightarrow> string list option" where
  "match_at Q_Year s =
     (case q_digit s of
        None \<Rightarrow> None
      | Some (q, r) \<Rightarrow>
          opt_sep (\<lambda>t. case digits4 t of None \<Rightarrow> None | Some (y, _) \<Rightarrow> Some [q, y]) r)"
| "match_at Year_Q s =
     (case digits4 s of
        None \<Rightarrow> None
      | Some (y, r) \<Rightarrow>
          opt_sep (\<lambda>t. case q_digit t of None \<Rightarrow> None | Some (q, _) \<Rightarrow> Some [y, q]) r)"
| "match_at Year_only s =
     (case digits4 s of None \<Rightarrow> None | Some (y, _) \<Rightarrow> Some [y])"

fun re_search :: "pattern \<Rightarrow> string \<Rightarrow> string list option" where
  "re_search p [] = match_at p []"
| "re_search p (c # cs) =
     (case match_at p (c # cs) of Some g \<Rightarrow> Some g | None \<Rightarrow> re_search p cs)"

text \<open>
  \<^verbatim>\<open>int(text)\<close> on a captured group: the decimal value of a non-empty run of digits, and
  \<^verbatim>\<open>ValueError\<close> (here \<open>None\<close>) on anything else.
\<close>

definition digit_val :: "char \<Rightarrow> int" where
  "digit_val c = int (of_char c) - 48"

definition py_int :: "string \<Rightarrow> int option" where
  "py_int s =
     (if s \<noteq> [] \<and> list_all is_digit s
      then Some (foldl (\<lambda>acc c. 10 * acc + digit_val c) 0 s)
      else None)"

text \<open>The body of the \<^verbatim>\<open>try\<close> block: the loop over \<^verbatim>\<open>patterns\<close>.\<close>

fun try_patterns :: "pattern list \<Rightarrow> string \<Rightarrow> exn + (int \<times> int)" where
  "try_patterns [] s = Inr (1, 2023)"
| "try_patterns (p # ps) s =
     (case re_search p s of
        None \<Rightarrow> try_patterns ps s
      | Some groups \<Rightarrow>
          (case groups of
             [g0, g1] \<Rightarrow>
               (case (py_int g0, py_int g1) of
                  (Some a, Some b) \<Rightarrow> if pattern_startswith_Q p then Inr (a, b) else Inr (b, a)
                | _ \<Rightarrow> Inl ValueError)
           | [g0] \<Rightarrow>
               (case py_int g0 of Some y \<Rightarrow> Inr (1, y) | None \<Rightarrow> Inl ValueError)
           | _ \<Rightarrow> try_patterns ps s))"

text \<open>
  The function with its bare \<^verbatim>\<open>except\<close>: any exception of the body gives the default
  pair. The argument is the text \<^verbatim>\<open>str(purchase_quarter)\<close>.
\<close>

definition except_default :: "exn + (int \<times> int) \<Rightarrow> int \<times> int" where
  "except_default outcome = (case outcome of Inr r \<Rightarrow> r | Inl e \<Rightarrow> (1, 2023))"

definition extract_quarter_year :: "string \<Rightarrow> int \<times> int" where
  "extract_quarter_year purchase_quarter =
     except_default (try_patterns patterns purchase_quarter)"

subsection \<open>\<^verbatim>\<open>calculate_booking_flag\<close>, \<^verbatim>\<open>categorize_price\<close>, \<^verbatim>\<open>determine_season\<close>\<close>

definition booked_statuses :: "string list" where
  "booked_statuses = [''booked'', ''confirmed'', ''sold'', ''yes'', ''true'', ''1'']"

definition calculate_booking_flag :: "string \<Rightarrow> int" where
  "calculate_booking_flag booking_status =
     (if str_lower booking_status \<in> set booked_statuses then 1 else 0)"

definition categorize_price :: "real \<Rightarrow> string" where
  "categorize_price ticket_price =
     (if ticket_price \<le> 2 then ''0-2Cr''
      else if ticket_price \<le> 5 then ''2-5Cr''
      else if ticket_price \<le> 10 then ''5-10Cr''
      else if ticket_price \<le> 20 then ''10-20Cr''
      else ''20Cr+'')"

definition determine_season :: "int \<Rightarrow> string" where
  "determine_season quarter_number =
     (case map_of [(1, ''Winter''), (2, ''Spring''), (3, ''Summer''), (4, ''Monsoon'')] quarter_number of
        Some s \<Rightarrow> s
      | None \<Rightarrow> ''Winter'')"

text \<open>
  \<^verbatim>\<open>str(value)\<close> of a scalar. The text Python prints for a float is not part of this
  program; it is the parameter \<open>fstr\<close>, and every result below holds for each rendering.
\<close>

fun py_str :: "(real \<Rightarrow> string) \<Rightarrow> cell \<Rightarrow> string" where
  "py_str fstr PNone = ''None''"
| "py_str fstr NaN = ''nan''"
| "py_str fstr (Num x) = fstr x"
| "py_str fstr PosInf = ''inf''"
| "py_str fstr NegInf = ''-inf''"
| "py_str fstr (Str s) = s"


section \<open>Series operations of pandas used by the cleaner\<close>

text \<open>
  A column (\<^verbatim>\<open>pd.Series\<close>) is the list of its cells in row order. The functions of this
  section model the pandas calls the cleaner makes; pandas itself is not part of the
  program, and the model follows its documented behaviour on cells of the kinds above.
\<close>

text \<open>
  White space, as \<^verbatim>\<open>\s\<close> and \<^verbatim>\<open>str.strip()\<close> see it on a \<^verbatim>\<open>str\<close>: the ASCII code points
  9 to 13, 28 to 32, and the code points U+0085, U+00A0, U+1680, U+2000 to U+200A, U+2028,
  U+2029, U+202F, U+205F and U+3000, here in UTF-8. \<open>space_len s\<close> is the number of bytes
  of the white-space code point at the head of \<open>s\<close>, and 0 when there is none;
  \<open>drop_spaces\<close> removes the run of white space at the head.
\<close>

definition is_ascii_space :: "char \<Rightarrow> bool" where
  "is_ascii_space c = (of_char c \<in> set [9, 10, 11, 12, 13, 28, 29, 30, 31, 32 :: nat])"

definition unicode_spaces :: "string list" where
  "unicode_spaces =
     [[CHR 0xC2, CHR 0x85], [CHR 0xC2, CHR 0xA0], [CHR 0xE1, CHR 0x9A, CHR 0x80],
      [CHR 0xE2, CHR 0x80, CHR 0x80], [CHR 0xE2, CHR 0x80, CHR 0x81],
      [CHR 0xE2, CHR 0x80, CHR 0x82], [CHR 0xE2, CHR 0x80, CHR 0x83],
      [CHR 0xE2, CHR 0x80, CHR 0x84], [CHR 0xE2, CHR 0x80, CHR 0x85],
      [CHR 0xE2, CHR 0x80, CHR 0x86], [CHR 0xE2, CHR 0x80, CHR 0x87],
      [CHR 0xE2, CHR 0x80, CHR 0x88], [CHR 0xE2, CHR 0x80, CHR 0x89],
      [CHR 0xE2, CHR 0x80, CHR 0x8A], [CHR 0xE2, CHR 0x80, CHR 0xA8],
      [CHR 0xE2, CHR 0x80, CHR 0xA9], [CHR 0xE2, CHR 0x80, CHR 0xAF],
      [CHR 0xE2, CHR 0x81, CHR 0x9F], [CHR 0xE3, CHR 0x80, CHR 0x80]]"

definition space_len :: "string \<Rightarrow> nat" where
  "space_len s =
     (case s of
        [] \<Rightarrow> 0
      | c # cs \<Rightarrow>
          if is_ascii_space c then 1
          else (case find (starts_with s) unicode_spaces of
                  Some w \<Rightarrow> length w
                | None \<Rightarrow> 0))"

function drop_spaces :: "string \<Rightarrow> string" where
  "drop_spaces [] = []"
| "drop_spaces (c # cs) =
     (if space_len (c # cs) = 0 then c # cs
      else drop_spaces (drop (space_len (c # cs) - 1) cs))"
  by pat_completeness auto
termination
  by (relation "measure length") auto

definition is_alpha :: "char \<Rightarrow> bool" where
  "is_alpha c = (c \<in> set ''abcdefghijklmnopqrstuvwxyzABCDEFGHIJKLMNOPQRSTUVWXYZ'')"

definition is_float_cell :: "cell \<Rightarrow> bool" where
  "is_float_cell v = (case v of NaN \<Rightarrow> True | Num x \<Rightarrow> True | PosInf \<Rightarrow> True | NegInf \<Rightarrow> True | _ \<Rightarrow> False)"

definition is_str_cell :: "cell \<Rightarrow> bool" where
  "is_str_cell v = (case v of Str s \<Rightarrow> True | _ \<Rightarrow> False)"

text \<open>
  The dtype is read off the cells: a column is numeric (\<^verbatim>\<open>float64\<close> or \<^verbatim>\<open>int64\<close>) when it
  has a row and every cell is a float; otherwise it is an \<^verbatim>\<open>object\<close> column.
\<close>

definition numeric_dtype :: "cell list \<Rightarrow> bool" where
  "numeric_dtype vs = (vs \<noteq> [] \<and> list_all is_float_cell vs)"

text \<open>\<^verbatim>\<open>series.astype(str)\<close>, \<^verbatim>\<open>series.str.<method>\<close> (NaN on a cell that is no string),
  \<^verbatim>\<open>series.isnull().sum()\<close> and \<^verbatim>\<open>series.fillna(value)\<close>.\<close>

definition astype_str :: "(real \<Rightarrow> string) \<Rightarrow> cell list \<Rightarrow> cell list" where
  "astype_str fstr vs = map (\<lambda>v. Str (py_str fstr v)) vs"

definition str_method :: "(string \<Rightarrow> string) \<Rightarrow> cell list \<Rightarrow> cell list" where
  "str_method g vs = map (\<lambda>v. case v of Str s \<Rightarrow> Str (g s) | _ \<Rightarrow> NaN) vs"

definition null_count :: "cell list \<Rightarrow> nat" where
  "null_count vs = length (filter isna vs)"

definition fillna :: "cell \<Rightarrow> cell list \<Rightarrow> cell list" where
  "fillna value vs = (if isna value then vs else map (\<lambda>v. if isna v then value else v) vs)"

subsection \<open>Regular-expression replacement\<close>

text \<open>
  \<^verbatim>\<open>series.str.replace(pattern, '', regex=True)\<close> on one text: scan from the left and drop
  every match. A pattern is given by its matcher: the length of the match that starts at
  the head of the text, if there is one (the patterns used never match the empty text).
\<close>

function re_remove :: "(string \<Rightarrow> nat option) \<Rightarrow> string \<Rightarrow> string" where
  "re_remove m [] = []"
| "re_remove m (c # cs) =
     (case m (c # cs) of
        None \<Rightarrow> c # re_remove m cs
      | Some n \<Rightarrow> re_remove m (drop (n - 1) cs))"
  by pat_completeness auto
termination
  by (relation "measure (\<lambda>(m, s). length s)") auto

text \<open>The rupee sign U+20B9 in UTF-8.\<close>

definition rupee :: string where
  "rupee = [CHR 0xE2, CHR 0x82, CHR 0xB9]"

text \<open>\<^verbatim>\<open>[\<rupee>$,]\<close> (rupee sign, dollar, comma), \<^verbatim>\<open>cr\.?\<close> and \<^verbatim>\<open>lac\.?\<close> with
  \<^verbatim>\<open>re.IGNORECASE\<close>, \<^verbatim>\<open>\s+\<close>, \<^verbatim>\<open>[a-zA-Z]\<close>.\<close>

definition m_currency :: "string \<Rightarrow> nat option" where
  "m_currency s =
     (if starts_with s rupee then Some 3
      else (case s of
              [] \<Rightarrow> None
            | c # _ \<Rightarrow> if c = CHR ''$'' \<or> c = CHR '','' then Some 1 else None))"

definition m_unit :: "string \<Rightarrow> string \<Rightarrow> nat option" where
  "m_unit u s =
     (if length u \<le> length s \<and> str_lower (take (length u) s) = u
      then Some (length u + (if starts_with (drop (length u) s) ''.'' then 1 else 0))
      else None)"

definition m_space :: "string \<Rightarrow> nat option" where
  "m_space s =
     (let n = length s - length (drop_spaces s) in if n = 0 then None else Some n)"

definition m_alpha :: "string \<Rightarrow> nat option" where
  "m_alpha s = (case s of [] \<Rightarrow> None | c # _ \<Rightarrow> if is_alpha c then Some 1 else None)"

subsection \<open>\<^verbatim>\<open>pd.to_numeric(series, errors='coerce')\<close>\<close>

text \<open>
  The text of a number: an optional sign, digits, and optionally a point and more digits,
  with a digit on at least one side of the point. Anything else (the empty text too) does
  not parse and becomes NaN.
\<close>

definition digits_val :: "string \<Rightarrow> real" where
  "digits_val s = foldl (\<lambda>acc c. 10 * acc + real_of_int (digit_val c)) 0 s"

definition parse_unsigned :: "string \<Rightarrow> real option" where
  "parse_unsigned s =
     (let ip = takeWhile is_digit s; rest = dropWhile is_digit s
      in case rest of
           [] \<Rightarrow> if ip = [] then None else Some (digits_val ip)
         | c # fp \<Rightarrow>
             if c = CHR ''.'' \<and> list_all is_digit fp \<and> (ip \<noteq> [] \<or> fp \<noteq> [])
             then Some (digits_val ip + digits_val fp / 10 ^ length fp)
             else None)"

definition parse_number :: "string \<Rightarrow> real option" where
  "parse_number s =
     (case s of
        [] \<Rightarrow> None
      | c # r \<Rightarrow>
          if c = CHR ''-'' then map_option uminus (parse_unsigned r)
          else if c = CHR ''+'' then parse_unsigned r
          else parse_unsigned s)"

definition to_numeric :: "cell list \<Rightarrow> cell list" where
  "to_numeric vs =
     map (\<lambda>v. case v of
                 Str s \<Rightarrow> (case parse_number s of Some x \<Rightarrow> Num x | None \<Rightarrow> NaN)
               | PNone \<Rightarrow> NaN
               | _ \<Rightarrow> v) vs"

subsection \<open>\<^verbatim>\<open>series.median()\<close> and \<^verbatim>\<open>series.mode()\<close>\<close>

text \<open>
  The median skips missing cells and is NaN when nothing is left. The values are ordered
  with the infinities at the two ends; for an even count it is the mean of the two middle
  values. On a column that holds a string, pandas raises \<^verbatim>\<open>TypeError\<close>.
\<close>

definition finite_values :: "cell list \<Rightarrow> real list" where
  "finite_values vs = List.map_filter (\<lambda>v. case v of Num x \<Rightarrow> Some x | _ \<Rightarrow> None) vs"

definition kth_value :: "cell list \<Rightarrow> nat \<Rightarrow> cell" where
  "kth_value vs k =
     (let neg = length (filter (\<lambda>v. v = NegInf) vs); fin = sort (finite_values vs)
      in if k < neg then NegInf
         else if k < neg + length fin then Num (fin ! (k - neg))
         else PosInf)"

fun mean2 :: "cell \<Rightarrow> cell \<Rightarrow> cell" where
  "mean2 (Num x) (Num y) = Num ((x + y) / 2)"
| "mean2 NegInf PosInf = NaN"
| "mean2 PosInf NegInf = NaN"
| "mean2 NegInf _ = NegInf"
| "mean2 _ NegInf = NegInf"
| "mean2 PosInf _ = PosInf"
| "mean2 _ PosInf = PosInf"
| "mean2 _ _ = NaN"

definition median :: "cell list \<Rightarrow> exn + cell" where
  "median vs =
     (if list_ex is_str_cell vs then Inl TypeError
      else
        (let n = length (filter (\<lambda>v. \<not> isna v) vs)
         in if n = 0 then Inr NaN
            else if odd n then Inr (kth_value vs (n div 2))
            else Inr (mean2 (kth_value vs (n div 2 - 1)) (kth_value vs (n div 2)))))"

text \<open>
  \<^verbatim>\<open>series.mode()\<close> lists the most frequent present values in sorted order (when they
  cannot be compared, in the order of their first occurrence), and \<^verbatim>\<open>mode()[0]\<close> takes the
  first. \<open>mode0\<close> is \<open>None\<close> when \<^verbatim>\<open>mode().empty\<close>.
\<close>

definition most_frequent :: "cell list \<Rightarrow> cell list" where
  "most_frequent vs =
     (let present = filter (\<lambda>v. \<not> isna v) vs;
          top = fold max (map (count_list present) present) 0
      in filter (\<lambda>v. count_list present v = top) (rev (remdups (rev present))))"

definition cell_le :: "cell \<Rightarrow> cell \<Rightarrow> bool option" where
  "cell_le a b =
     (case (a, b) of
        (Str s, Str t) \<Rightarrow> Some (s \<le> t)
      | (Str s, _) \<Rightarrow> None
      | (_, Str t) \<Rightarrow> None
      | (PNone, _) \<Rightarrow> None
      | (_, PNone) \<Rightarrow> None
      | (NaN, _) \<Rightarrow> None
      | (_, NaN) \<Rightarrow> None
      | (NegInf, _) \<Rightarrow> Some True
      | (_, PosInf) \<Rightarrow> Some True
      | (Num x, Num y) \<Rightarrow> Some (x \<le> y)
      | _ \<Rightarrow> Some False)"

definition comparable :: "cell list \<Rightarrow> bool" where
  "comparable vs = (list_all is_str_cell vs \<or> list_all is_float_cell vs)"

definition mode0 :: "cell list \<Rightarrow> cell option" where
  "mode0 vs =
     (case most_frequent vs of
        [] \<Rightarrow> None
      | v # rest \<Rightarrow>
          if comparable (v # rest)
          then Some (fold (\<lambda>a b. if cell_le a b = Some True then a else b) rest v)
          else Some v)"

subsection \<open>Text methods\<close>

text \<open>\<^verbatim>\<open>str.title()\<close>: a letter after a letter is lower-cased, any other letter is
  upper-cased. \<^verbatim>\<open>str.strip()\<close> removes the white space at both ends.\<close>

fun title_from :: "bool \<Rightarrow> string \<Rightarrow> string" where
  "title_from prev [] = []"
| "title_from prev (c # cs) =
     (if is_alpha c then (if prev then lower_c c else upper_c c) # title_from True cs
      else c # title_from False cs)"

definition str_title :: "string \<Rightarrow> string" where
  "str_title s = title_from False s"

fun strip_right :: "string \<Rightarrow> string" where
  "strip_right [] = []"
| "strip_right (c # cs) = (if drop_spaces (c # cs) = [] then [] else c # strip_right cs)"

definition str_strip :: "string \<Rightarrow> string" where
  "str_strip s = strip_right (drop_spaces s)"

text \<open>\<^verbatim>\<open>str.replace(r'(\d)\s*BHK', r'\1BHK', regex=True)\<close> on one text.\<close>

function bhk_replace :: "string \<Rightarrow> string" where
  "bhk_replace [] = []"
| "bhk_replace (c # cs) =
     (if is_digit c \<and> starts_with (drop_spaces cs) ''BHK''
      then c # ''BHK'' @ bhk_replace (drop 3 (drop_spaces cs))
      else c # bhk_replace cs)"
  by pat_completeness auto
termination
proof (relation "measure length")
  show "wf (measure length)" by simp
next
  fix c :: char and cs :: string
  have "length (drop_spaces t) \<le> length t" for t
  proof (induction t rule: drop_spaces.induct)
    case 1
    show ?case by simp
  next
    case (2 d ds)
    show ?case
    proof (cases "space_len (d # ds) = 0")
      case True
      then show ?thesis by simp
    next
      case False
      with 2 have "length (drop_spaces (drop (space_len (d # ds) - 1) ds)) \<le> length ds"
        by (simp add: le_diff_conv)
      with False show ?thesis by simp
    qed
  qed
  then have "length (drop 3 (drop_spaces cs)) \<le> length cs"
    by (simp add: le_diff_conv trans_le_add1)
  then show "(drop 3 (drop_spaces cs), c # cs) \<in> measure length" by simp
next
  fix c :: char and cs :: string
  show "(cs, c # cs) \<in> measure length" by simp
qed

text \<open>\<^verbatim>\<open>series.map(dict)\<close>: the dict's value at the cell, NaN where the cell is no key.\<close>

definition series_map :: "(cell \<times> cell) list \<Rightarrow> cell list \<Rightarrow> cell list" where
  "series_map d vs = map (\<lambda>v. case map_of d v of Some r \<Rightarrow> r | None \<Rightarrow> NaN) vs"

subsection \<open>Element-wise arithmetic and \<^verbatim>\<open>pd.cut\<close>\<close>

text \<open>
  Float arithmetic as numpy does it: NaN propagates, a division by zero gives an infinity
  or NaN and raises nothing. An operand that is a string or \<^verbatim>\<open>None\<close> raises
  \<^verbatim>\<open>TypeError\<close>.
\<close>

fun cell_times :: "cell \<Rightarrow> real \<Rightarrow> exn + cell" where
  "cell_times (Num x) k = Inr (Num (x * k))"
| "cell_times NaN k = Inr NaN"
| "cell_times PosInf k = Inr (if k > 0 then PosInf else if k < 0 then NegInf else NaN)"
| "cell_times NegInf k = Inr (if k > 0 then NegInf else if k < 0 then PosInf else NaN)"
| "cell_times _ k = Inl TypeError"

fun cell_div :: "cell \<Rightarrow> cell \<Rightarrow> exn + cell" where
  "cell_div (Str s) _ = Inl TypeError"
| "cell_div _ (Str s) = Inl TypeError"
| "cell_div PNone _ = Inl TypeError"
| "cell_div _ PNone = Inl TypeError"
| "cell_div NaN _ = Inr NaN"
| "cell_div _ NaN = Inr NaN"
| "cell_div (Num x) (Num y) =
     Inr (if y \<noteq> 0 then Num (x / y)
          else if x > 0 then PosInf else if x < 0 then NegInf else NaN)"
| "cell_div (Num x) _ = Inr (Num 0)"
| "cell_div PosInf (Num y) = Inr (if y < 0 then NegInf else PosInf)"
| "cell_div NegInf (Num y) = Inr (if y < 0 then PosInf else NegInf)"
| "cell_div _ _ = Inr NaN"

text \<open>An element-wise operation raises when one of its elements does.\<close>

fun all_or_raise :: "(exn + cell) list \<Rightarrow> exn + cell list" where
  "all_or_raise [] = Inr []"
| "all_or_raise (Inl e # rs) = Inl e"
| "all_or_raise (Inr v # rs) = (case all_or_raise rs of Inl e \<Rightarrow> Inl e | Inr vs \<Rightarrow> Inr (v # vs))"

text \<open>
  \<^verbatim>\<open>pd.cut(series, bins=[0, 2, 5, 10, 20, inf], labels=[...], right=False)\<close> on one cell:
  the label of the bin, closed on the left and open on the right, that holds the value,
  and NaN when no bin does.
\<close>

fun cut_price :: "cell \<Rightarrow> exn + cell" where
  "cut_price (Num x) =
     Inr (if 0 \<le> x \<and> x < 2 then Str ''0-2Cr''
          else if 2 \<le> x \<and> x < 5 then Str ''2-5Cr''
          else if 5 \<le> x \<and> x < 10 then Str ''5-10Cr''
          else if 10 \<le> x \<and> x < 20 then Str ''10-20Cr''
          else if 20 \<le> x then Str ''20Cr+''
          else NaN)"
| "cut_price NaN = Inr NaN"
| "cut_price PosInf = Inr NaN"
| "cut_price NegInf = Inr NaN"
| "cut_price _ = Inl TypeError"


section \<open>The cleaner: \<^verbatim>\<open>HousingDataCleaner\<close> (housing\_data\_cleaner.py)\<close>

subsection \<open>The data frame and the cleaner's state\<close>

text \<open>
  A \<^verbatim>\<open>DataFrame\<close> is its index length (\<^verbatim>\<open>len(df)\<close>) and its columns in order, each a
  series over that index. \<^verbatim>\<open>df[c] = series\<close> replaces the column \<open>c\<close> in place or
  appends it as the last column; \<^verbatim>\<open>df[c] = scalar\<close> fills a whole column.
\<close>

record frame =
  nrows :: nat
  cols :: "(string \<times> cell list) list"

definition column :: "frame \<Rightarrow> string \<Rightarrow> cell list option" where
  "column f c = map_of (cols f) c"

definition set_column :: "string \<Rightarrow> cell list \<Rightarrow> frame \<Rightarrow> frame" where
  "set_column c vs f = f\<lparr>cols := AList.update c vs (cols f)\<rparr>"

definition set_scalar :: "string \<Rightarrow> cell \<Rightarrow> frame \<Rightarrow> frame" where
  "set_scalar c v f = set_column c (replicate (nrows f) v) f"

definition shape :: "frame \<Rightarrow> nat \<times> nat" where
  "shape f = (nrows f, length (cols f))"

text \<open>Every column of a frame has one cell for each row of the index.\<close>

definition well_formed :: "frame \<Rightarrow> bool" where
  "well_formed f = list_all (\<lambda>cv. length (snd cv) = nrows f) (cols f)"

datatype status = Success | Failed exn

text \<open>
  \<^verbatim>\<open>self.cleaning_report\<close>: the two shapes, the entry of each step (rows affected and
  status) and, of the validation results, the remaining null counts. The dtypes and the
  \<^verbatim>\<open>describe()\<close> statistics of the report are not modelled.
\<close>

record report =
  initial_shape :: "(nat \<times> nat) option"
  final_shape :: "(nat \<times> nat) option"
  steps :: "(string \<times> int \<times> status) list"
  validation :: "(string \<times> nat) list option"

record cleaner =
  df :: frame
  column_map :: "(string \<times> string) list"
  cleaning_report :: report

text \<open>A step returns the exception it raised, if any, and the state it left behind.\<close>

type_synonym step = "cleaner \<Rightarrow> exn option \<times> cleaner"

definition then_do :: "step \<Rightarrow> step \<Rightarrow> step" where
  "then_do s1 s2 c = (case s1 c of (None, c1) \<Rightarrow> s2 c1 | (Some e, c1) \<Rightarrow> (Some e, c1))"

definition on_frame :: "(frame \<Rightarrow> frame) \<Rightarrow> step" where
  "on_frame g c = (None, c\<lparr>df := g (df c)\<rparr>)"

subsection \<open>\<^verbatim>\<open>_identify_columns\<close> and \<^verbatim>\<open>get_column\<close>\<close>

definition column_mapping :: "(string \<times> string list) list" where
  "column_mapping =
     [(''price'', [''Ticket_Price_Cr'', ''Price'', ''price'', ''ticket_price'', ''Price_Cr'']),
      (''amenity'', [''Amenity_Score'', ''Amenity'', ''amenity_score'', ''AmenityScore'']),
      (''configuration'', [''Configuration'', ''configuration'', ''config'', ''BHK'']),
      (''micro_market'', [''Micro_Market'', ''micro_market'', ''Location'', ''Area'', ''Market'']),
      (''builder'', [''Builder'', ''builder'', ''Developer'', ''developer'']),
      (''booking_status'', [''Booking_Status'', ''booking_status'', ''Status'', ''status'', ''Booking'']),
      (''purchase_quarter'',
         [''Purchase_Quarter'', ''purchase_quarter'', ''Quarter'', ''quarter'', ''Time_Period''])]"

definition identify_columns :: "string list \<Rightarrow> (string \<times> string) list" where
  "identify_columns available_columns =
     List.map_filter
       (\<lambda>(standard_name, possible_names).
          map_option (Pair standard_name) (find (\<lambda>n. n \<in> set available_columns) possible_names))
       column_mapping"

definition get_column :: "cleaner \<Rightarrow> string \<Rightarrow> string option" where
  "get_column c standard_name = map_of (column_map c) standard_name"

text \<open>
  \<open>mapped_column cm f std\<close> is the guard
  \<^verbatim>\<open>col = self.get_column(std); if col and col in self.df.columns\<close>: the actual name and
  the column, when the standard name is mapped to a column of the frame.
\<close>

definition mapped_column ::
  "(string \<times> string) list \<Rightarrow> frame \<Rightarrow> string \<Rightarrow> (string \<times> cell list) option" where
  "mapped_column cm f standard_name =
     (case map_of cm standard_name of
        None \<Rightarrow> None
      | Some actual_name \<Rightarrow>
          if actual_name = [] then None
          else map_option (Pair actual_name) (column f actual_name))"

definition frame_step :: "(frame \<Rightarrow> exn option \<times> frame) \<Rightarrow> step" where
  "frame_step g c = (case g (df c) of (e, f) \<Rightarrow> (e, c\<lparr>df := f\<rparr>))"

subsection \<open>\<^verbatim>\<open>clean_price_column\<close>\<close>

definition price_cleaning_patterns :: "(string \<Rightarrow> nat option) list" where
  "price_cleaning_patterns = [m_currency, m_unit ''cr'', m_unit ''lac'', m_space, m_alpha]"

text \<open>\<^verbatim>\<open>astype(str)\<close>, the loop of replacements, and \<^verbatim>\<open>pd.to_numeric\<close>.\<close>

definition clean_price_values :: "(real \<Rightarrow> string) \<Rightarrow> cell list \<Rightarrow> cell list" where
  "clean_price_values fstr vs =
     to_numeric
       (fold (\<lambda>m series. str_method (re_remove m) series) price_cleaning_patterns
          (astype_str fstr vs))"

text \<open>
  \<^verbatim>\<open>self.df[col].fillna(value, inplace=True)\<close> fills the series that \<^verbatim>\<open>self.df[col]\<close>
  returns. Without copy-on-write that series is the frame's own column, and the frame is
  filled. With copy-on-write (the behaviour of pandas from version 3 on) it is a temporary
  copy, and the frame's column stays as it was. The repository pins no pandas version, so
  the mode is the parameter \<open>copy_on_write\<close> of the steps that fill in this way.
\<close>

definition inplace_fillna :: "bool \<Rightarrow> cell \<Rightarrow> cell list \<Rightarrow> cell list" where
  "inplace_fillna copy_on_write value vs = (if copy_on_write then vs else fillna value vs)"

definition clean_price_column :: "bool \<Rightarrow> (real \<Rightarrow> string) \<Rightarrow> step" where
  "clean_price_column copy_on_write fstr c =
     (case get_column c ''price'' of
        None \<Rightarrow> (None, c)
      | Some price_col \<Rightarrow>
          if price_col = [] then (None, c)
          else
            (case column (df c) price_col of
               None \<Rightarrow> (Some KeyError, c)
             | Some original_prices \<Rightarrow>
                 (let numeric = clean_price_values fstr original_prices;
                      f1 = set_column price_col numeric (df c)
                  in case median numeric of
                       Inl e \<Rightarrow> (Some e, c\<lparr>df := f1\<rparr>)
                     | Inr price_median \<Rightarrow>
                         (let filled = inplace_fillna copy_on_write price_median numeric;
                              f2 = set_column price_col filled f1;
                              f3 = (if price_col \<noteq> ''Ticket_Price_Cr''
                                    then set_column (''original_'' @ price_col) original_prices
                                           (set_column ''Ticket_Price_Cr'' filled f2)
                                    else f2)
                          in (None, c\<lparr>df := f3\<rparr>)))))"

subsection \<open>\<^verbatim>\<open>handle_missing_values\<close>\<close>

text \<open>The loop over \<^verbatim>\<open>self.column_map.items()\<close>.\<close>

fun fill_mapped :: "bool \<Rightarrow> (string \<times> string) list \<Rightarrow> frame \<Rightarrow> exn option \<times> frame" where
  "fill_mapped cow [] f = (None, f)"
| "fill_mapped cow ((standard_name, actual_name) # rest) f =
     (case column f actual_name of
        None \<Rightarrow> fill_mapped cow rest f
      | Some vs \<Rightarrow>
          if null_count vs > 0 then
            (if standard_name \<in> set [''price'', ''amenity''] then
               (case median vs of
                  Inl e \<Rightarrow> (Some e, f)
                | Inr median_val \<Rightarrow>
                    fill_mapped cow rest (set_column actual_name (inplace_fillna cow median_val vs) f))
             else if standard_name = ''booking_status'' then
               fill_mapped cow rest (set_column actual_name (inplace_fillna cow (Str ''Not Booked'') vs) f)
             else
               (case mode0 vs of
                  Some mode_val \<Rightarrow>
                    fill_mapped cow rest (set_column actual_name (inplace_fillna cow mode_val vs) f)
                | None \<Rightarrow>
                    fill_mapped cow rest (set_column actual_name (inplace_fillna cow (Str ''Unknown'') vs) f)))
          else fill_mapped cow rest f)"

text \<open>The loop over \<^verbatim>\<open>self.df.columns\<close> for the columns that are no value of the map.\<close>

fun fill_others ::
  "bool \<Rightarrow> string list \<Rightarrow> string list \<Rightarrow> frame \<Rightarrow> exn option \<times> frame" where
  "fill_others cow [] mapped f = (None, f)"
| "fill_others cow (col # rest) mapped f =
     (case column f col of
        None \<Rightarrow> fill_others cow rest mapped f
      | Some vs \<Rightarrow>
          if col \<notin> set mapped \<and> null_count vs > 0 then
            (if numeric_dtype vs then
               (case median vs of
                  Inl e \<Rightarrow> (Some e, f)
                | Inr median_val \<Rightarrow>
                    fill_others cow rest mapped (set_column col (inplace_fillna cow median_val vs) f))
             else fill_others cow rest mapped (set_column col (inplace_fillna cow (Str ''Unknown'') vs) f))
          else fill_others cow rest mapped f)"

definition handle_missing_values :: "bool \<Rightarrow> step" where
  "handle_missing_values copy_on_write c =
     (case fill_mapped copy_on_write (column_map c) (df c) of
        (Some e, f) \<Rightarrow> (Some e, c\<lparr>df := f\<rparr>)
      | (None, f) \<Rightarrow>
          (case fill_others copy_on_write (map fst (cols f)) (map snd (column_map c)) f of
             (e, f') \<Rightarrow> (e, c\<lparr>df := f'\<rparr>)))"

subsection \<open>\<^verbatim>\<open>normalize_text_fields\<close>\<close>

definition text_columns :: "string list" where
  "text_columns = [''configuration'', ''micro_market'', ''builder'', ''booking_status'']"

definition normalize_field ::
  "(real \<Rightarrow> string) \<Rightarrow> (string \<times> string) list \<Rightarrow> string \<Rightarrow> frame \<Rightarrow> frame" where
  "normalize_field fstr cm std_name f =
     (case mapped_column cm f std_name of
        None \<Rightarrow> f
      | Some (actual_name, vs) \<Rightarrow>
          (let titled = str_method str_strip (str_method str_title (astype_str fstr vs));
               normal = (if std_name = ''configuration''
                         then str_method bhk_replace (str_method str_upper titled)
                         else titled)
           in set_column actual_name normal f))"

definition normalize_text_fields :: "(real \<Rightarrow> string) \<Rightarrow> step" where
  "normalize_text_fields fstr c =
     (None, c\<lparr>df := fold (normalize_field fstr (column_map c)) text_columns (df c)\<rparr>)"

subsection \<open>\<^verbatim>\<open>create_new_features\<close>\<close>

text \<open>1. \<^verbatim>\<open>Booking_Flag\<close>: the lambda applied to each cell of the booking column.\<close>

definition booking_flag_of :: "(real \<Rightarrow> string) \<Rightarrow> cell \<Rightarrow> cell" where
  "booking_flag_of fstr x =
     (if str_lower (py_str fstr x) \<in> set [''booked'', ''confirmed'', ''sold'', ''yes'']
      then Num 1 else Num 0)"

definition feature_booking_flag ::
  "(real \<Rightarrow> string) \<Rightarrow> (string \<times> string) list \<Rightarrow> frame \<Rightarrow> frame" where
  "feature_booking_flag fstr cm f =
     (case mapped_column cm f ''booking_status'' of
        Some (booking_col, vs) \<Rightarrow> set_column ''Booking_Flag'' (map (booking_flag_of fstr) vs) f
      | None \<Rightarrow> set_scalar ''Booking_Flag'' (Num 0) f)"

text \<open>2. \<^verbatim>\<open>Carpet_Area_Sqft\<close>, when the frame has no such column yet: the dict's value at
  the configuration, 1000 where the configuration is no key of the dict.\<close>

definition cleaner_area_map :: "(cell \<times> cell) list" where
  "cleaner_area_map =
     [(Str ''1BHK'', Num 650), (Str ''2BHK'', Num 950), (Str ''3BHK'', Num 1250),
      (Str ''4BHK'', Num 1600), (Str ''5BHK'', Num 2100), (Str ''STUDIO'', Num 400),
      (Str ''1RK'', Num 350), (Str ''2BHK+STUDY'', Num 1100), (Str ''3BHK+STUDY'', Num 1400),
      (Str ''4BHK+STUDY'', Num 1800), (Str ''UNKNOWN'', Num 1000)]"

definition feature_carpet_area :: "(string \<times> string) list \<Rightarrow> frame \<Rightarrow> frame" where
  "feature_carpet_area cm f =
     (case column f ''Carpet_Area_Sqft'' of
        Some existing \<Rightarrow> f
      | None \<Rightarrow>
          (case mapped_column cm f ''configuration'' of
             Some (config_col, vs) \<Rightarrow>
               set_column ''Carpet_Area_Sqft'' (fillna (Num 1000) (series_map cleaner_area_map vs)) f
           | None \<Rightarrow> set_scalar ''Carpet_Area_Sqft'' (Num 1000) f))"

text \<open>3. \<^verbatim>\<open>Price_per_Sqft = (Ticket_Price_Cr * 10000000) / Carpet_Area_Sqft\<close>, element by
  element, with no test of the area.\<close>

definition price_per_sqft_of :: "cell \<Rightarrow> cell \<Rightarrow> exn + cell" where
  "price_per_sqft_of ticket_price carpet_area =
     (case cell_times ticket_price 10000000 of
        Inl e \<Rightarrow> Inl e
      | Inr scaled \<Rightarrow> cell_div scaled carpet_area)"

definition feature_price_per_sqft :: "frame \<Rightarrow> exn option \<times> frame" where
  "feature_price_per_sqft f =
     (case column f ''Ticket_Price_Cr'' of
        None \<Rightarrow> (None, f)
      | Some tp \<Rightarrow>
          (case column f ''Carpet_Area_Sqft'' of
             None \<Rightarrow> (None, f)
           | Some ca \<Rightarrow>
               (case all_or_raise (map2 price_per_sqft_of tp ca) of
                  Inl e \<Rightarrow> (Some e, f)
                | Inr vs \<Rightarrow> (None, set_column ''Price_per_Sqft'' vs f))))"

text \<open>
  4. \<^verbatim>\<open>Quarter_Number\<close> and \<^verbatim>\<open>Year\<close>. \<^verbatim>\<open>series.str.extract(r'Q(\d)[_\-]?(\d{4})')\<close> gives
  the two groups of the first match in each cell, NaN where there is none; the
  \<^verbatim>\<open>.str\<close> accessor raises \<^verbatim>\<open>AttributeError\<close> on a numeric column. \<^verbatim>\<open>extracted.empty\<close>
  holds exactly when the frame has no row, and then the alternative extraction is empty
  as well and no column is set.
\<close>

definition str_extract_q_year :: "cell \<Rightarrow> cell \<times> cell" where
  "str_extract_q_year v =
     (case v of
        Str s \<Rightarrow>
          (case re_search Q_Year s of
             Some [q, y] \<Rightarrow> (Str q, Str y)
           | _ \<Rightarrow> (NaN, NaN))
      | _ \<Rightarrow> (NaN, NaN))"

definition feature_quarter_year :: "(string \<times> string) list \<Rightarrow> frame \<Rightarrow> exn option \<times> frame" where
  "feature_quarter_year cm f =
     (case mapped_column cm f ''purchase_quarter'' of
        Some (quarter_col, vs) \<Rightarrow>
          if numeric_dtype vs then (Some AttributeError, f)
          else
            (let extracted = map str_extract_q_year vs
             in if extracted \<noteq> [] then
                  (None,
                   set_column ''Year'' (fillna (Num 2023) (to_numeric (map snd extracted)))
                     (set_column ''Quarter_Number''
                        (fillna (Num 1) (to_numeric (map fst extracted))) f))
                else (None, f))
      | None \<Rightarrow>
          (None, set_scalar ''Year'' (Num 2023) (set_scalar ''Quarter_Number'' (Num 1) f)))"

text \<open>5. \<^verbatim>\<open>Price_Category\<close> and 6. \<^verbatim>\<open>Season\<close>.\<close>

definition feature_price_category :: "frame \<Rightarrow> exn option \<times> frame" where
  "feature_price_category f =
     (case column f ''Ticket_Price_Cr'' of
        None \<Rightarrow> (None, f)
      | Some tp \<Rightarrow>
          (case all_or_raise (map cut_price tp) of
             Inl e \<Rightarrow> (Some e, f)
           | Inr vs \<Rightarrow> (None, set_column ''Price_Category'' vs f)))"

definition season_map :: "(cell \<times> cell) list" where
  "season_map =
     [(Num 1, Str ''Winter''), (Num 2, Str ''Spring''), (Num 3, Str ''Summer''),
      (Num 4, Str ''Monsoon'')]"

definition feature_season :: "frame \<Rightarrow> frame" where
  "feature_season f =
     (case column f ''Quarter_Number'' of
        None \<Rightarrow> f
      | Some qn \<Rightarrow> set_column ''Season'' (fillna (Str ''Winter'') (series_map season_map qn)) f)"

definition create_new_features :: "(real \<Rightarrow> string) \<Rightarrow> step" where
  "create_new_features fstr c =
     then_do (on_frame (feature_booking_flag fstr (column_map c)))
       (then_do (on_frame (feature_carpet_area (column_map c)))
          (then_do (frame_step feature_price_per_sqft)
             (then_do (frame_step (feature_quarter_year (column_map c)))
                (then_do (frame_step feature_price_category)
                   (on_frame feature_season))))) c"

subsection \<open>\<^verbatim>\<open>validate_data\<close>\<close>

text \<open>
  The validation results are stored in the report first; the summary printed afterwards
  reads \<^verbatim>\<open>cleaning_report['initial_shape']\<close> and \<^verbatim>\<open>cleaning_report['final_shape']\<close>, and a
  key the report does not have yet raises \<^verbatim>\<open>KeyError\<close>. The frame is not touched.
\<close>

definition remaining_nulls :: "frame \<Rightarrow> (string \<times> nat) list" where
  "remaining_nulls f =
     filter (\<lambda>cn. snd cn > 0) (map (\<lambda>cv. (fst cv, null_count (snd cv))) (cols f))"

definition validate_data :: step where
  "validate_data c =
     (let c1 = c\<lparr>cleaning_report :=
                   (cleaning_report c)\<lparr>validation := Some (remaining_nulls (df c))\<rparr>\<rparr>
      in if initial_shape (cleaning_report c1) = None \<or> final_shape (cleaning_report c1) = None
         then (Some KeyError, c1)
         else (None, c1))"

subsection \<open>\<^verbatim>\<open>clean_data\<close>\<close>

definition cleaning_steps :: "bool \<Rightarrow> (real \<Rightarrow> string) \<Rightarrow> (string \<times> step) list" where
  "cleaning_steps copy_on_write fstr =
     [(''price_cleaning'', clean_price_column copy_on_write fstr),
      (''missing_values'', handle_missing_values copy_on_write),
      (''text_normalization'', normalize_text_fields fstr),
      (''feature_engineering'', create_new_features fstr),
      (''data_validation'', validate_data)]"

definition record_step :: "string \<Rightarrow> int \<Rightarrow> status \<Rightarrow> cleaner \<Rightarrow> cleaner" where
  "record_step step_name rows_affected st c =
     c\<lparr>cleaning_report :=
         (cleaning_report c)\<lparr>steps :=
            AList.update step_name (rows_affected, st) (steps (cleaning_report c))\<rparr>\<rparr>"

text \<open>One turn of the loop: the step runs inside \<^verbatim>\<open>try\<close>, and its entry is written.\<close>

definition run_step :: "string \<times> step \<Rightarrow> cleaner \<Rightarrow> cleaner" where
  "run_step named c =
     (let initial_rows = nrows (df c)
      in case snd named c of
           (None, c1) \<Rightarrow>
             record_step (fst named) (int initial_rows - int (nrows (df c1))) Success c1
         | (Some e, c1) \<Rightarrow> record_step (fst named) 0 (Failed e) c1)"

fun run_steps :: "(string \<times> step) list \<Rightarrow> cleaner \<Rightarrow> cleaner" where
  "run_steps [] c = c"
| "run_steps (named # rest) c = run_steps rest (run_step named c)"

definition clean_data :: "bool \<Rightarrow> (real \<Rightarrow> string) \<Rightarrow> cleaner \<Rightarrow> cleaner" where
  "clean_data copy_on_write fstr c =
     (let c0 = c\<lparr>cleaning_report := (cleaning_report c)\<lparr>initial_shape := Some (shape (df c))\<rparr>\<rparr>;
          c5 = run_steps (cleaning_steps copy_on_write fstr) c0
      in c5\<lparr>cleaning_report := (cleaning_report c5)\<lparr>final_shape := Some (shape (df c5))\<rparr>\<rparr>)"

text \<open>\<^verbatim>\<open>__init__\<close> after the file is read: the column map, an empty report, the pipeline.\<close>

definition new_cleaner :: "frame \<Rightarrow> cleaner" where
  "new_cleaner f =
     \<lparr>df = f, column_map = identify_columns (map fst (cols f)),
      cleaning_report = \<lparr>initial_shape = None, final_shape = None, steps = [], validation = None\<rparr>\<rparr>"

subsection \<open>Auxiliary notions for the properties below\<close>

text \<open>A captured group of \<open>n\<close> digits.\<close>

definition group_ok :: "nat \<Rightarrow> string \<Rightarrow> bool" where
  "group_ok n g = (length g = n \<and> list_all is_digit g)"

text \<open>The five replacements of \<^verbatim>\<open>clean_price_column\<close> on one text, and the number a cell
  of the price column parses to, if it does.\<close>

definition clean_price_text :: "string \<Rightarrow> string" where
  "clean_price_text s = fold re_remove price_cleaning_patterns s"

definition parsed_price :: "(real \<Rightarrow> string) \<Rightarrow> cell \<Rightarrow> real option" where
  "parsed_price fstr v = parse_number (clean_price_text (py_str fstr v))"

text \<open>The median of a non-empty list of numbers: the middle of the sorted list, or the
  mean of its two middle values.\<close>

definition median_of :: "real list \<Rightarrow> real" where
  "median_of xs =
     (let s = sort xs; n = length xs
      in if odd n then s ! (n div 2) else (s ! (n div 2 - 1) + s ! (n div 2)) / 2)"

text \<open>Frames and renderings used as concrete instances.\<close>

definition plain_fstr :: "real \<Rightarrow> string" where
  "plain_fstr x = (if x = 1 then ''1.0'' else if x = 3 then ''3.0'' else if x = 5 then ''5.0'' else ''0.0'')"

definition price_example :: frame where
  "price_example = \<lparr>nrows = 4, cols = [(''Price'', [Num 1, Num 3, NaN, Num 5])]\<rparr>"

definition unparseable_example :: frame where
  "unparseable_example = \<lparr>nrows = 2, cols = [(''Price'', [Str ''bad'', Str ''n/a''])]\<rparr>"

definition quarter_example :: frame where
  "quarter_example = \<lparr>nrows = 2, cols = [(''Quarter'', [Str ''2023-Q3'', Str ''2022''])]\<rparr>"

definition area_example :: frame where
  "area_example =
     \<lparr>nrows = 2,
      cols = [(''Ticket_Price_Cr'', [Num 2.5, Num 1]), (''Carpet_Area_Sqft'', [Num 0, Num (-1000)])]\<rparr>"

text \<open>One frame follows another with the same number of rows, and with every column
  still of that length when that was so before.\<close>

definition preserves :: "frame \<Rightarrow> frame \<Rightarrow> bool" where
  "preserves f f' = (nrows f' = nrows f \<and> (\<not> well_formed f \<or> well_formed f'))"

text \<open>A step keeps the rows when the frame it leaves follows the one it found, and it
  touches neither the column map nor the step entries of the report.\<close>

definition keeps_rows :: "step \<Rightarrow> bool" where
  "keeps_rows s =
     (\<forall>c. preserves (df c) (df (snd (s c))) \<and>
          column_map (snd (s c)) = column_map c \<and>
          steps (cleaning_report (snd (s c))) = steps (cleaning_report c))"

text \<open>A parse result as the cell \<^verbatim>\<open>pd.to_numeric\<close> leaves: the number, or NaN.\<close>

definition cell_of :: "real option \<Rightarrow> cell" where
  "cell_of p = (case p of Some x \<Rightarrow> Num x | None \<Rightarrow> NaN)"

definition price_text_example :: frame where
  "price_text_example = \<lparr>nrows = 4, cols = [(''Price'', [Str ''1'', Str ''3'', PNone, Str ''5''])]\<rparr>"

definition divergence_example :: frame where
  "divergence_example =
     \<lparr>nrows = 2,
      cols = [(''Ticket_Price_Cr'', [Str ''2.5 Cr'', Str ''1'']),
              (''Carpet_Area_Sqft'', [Num 0, Num (-1000)]),
              (''Quarter'', [Str ''2023-Q3'', Str ''2022'']),
              (''Status'', [Str ''1'', Str ''true''])]\<rparr>"

definition divergence_result :: "(string \<times> cell list) list" where
  "divergence_result =
     [(''Ticket_Price_Cr'', [Num 2.5, Num 1]),
      (''Carpet_Area_Sqft'', [Num 0, Num (-1000)]),
      (''Quarter'', [Str ''2023-Q3'', Str ''2022'']),
      (''Status'', [Str ''1'', Str ''True'']),
      (''Booking_Flag'', [Num 0, Num 0]),
      (''Price_per_Sqft'', [PosInf, Num (-10000)]),
      (''Quarter_Number'', [Num 1, Num 1]),
      (''Year'', [Num 2023, Num 2023]),
      (''Price_Category'', [Str ''2-5Cr'', Str ''0-2Cr'']),
      (''Season'', [Str ''Winter'', Str ''Winter''])]"


section \<open>Verified properties\<close>

subsection \<open>Helper facts about text and the quarter patterns\<close>

lemma starts_with_prefix: "starts_with s p \<longleftrightarrow> prefix p s"
  by (induction s p rule: starts_with.induct) auto

lemma str_contains_sublist: "str_contains s p \<longleftrightarrow> sublist p s"
proof (induction s)
  case Nil
  then show ?case by simp
next
  case (Cons c cs)
  then show ?case by (simp add: starts_with_prefix sublist_Cons_right)
qed

lemma is_digit_val: "is_digit c \<Longrightarrow> 0 \<le> digit_val c \<and> digit_val c \<le> 9"
  by (auto simp: is_digit_def digit_val_def)

lemma py_int_bounds:
  assumes "list_all is_digit s" and "s \<noteq> []"
  shows "\<exists>n. py_int s = Some n \<and> 0 \<le> n \<and> n < 10 ^ length s"
proof -
  have "list_all is_digit t \<Longrightarrow>
        0 \<le> foldl (\<lambda>acc c. 10 * acc + digit_val c) 0 t \<and>
        foldl (\<lambda>acc c. 10 * acc + digit_val c) 0 t < 10 ^ length t" for t
  proof (induction t rule: rev_induct)
    case Nil
    then show ?case by simp
  next
    case (snoc c t)
    then have d: "0 \<le> digit_val c \<and> digit_val c \<le> 9" and ih:
      "0 \<le> foldl (\<lambda>acc c. 10 * acc + digit_val c) 0 t \<and>
       foldl (\<lambda>acc c. 10 * acc + digit_val c) 0 t < 10 ^ length t"
      by (simp_all add: is_digit_val)
    then show ?case by simp
  qed
  with assms show ?thesis by (simp add: py_int_def)
qed

lemma digits4_Some:
  "digits4 s = Some (y, r) \<Longrightarrow> length y = 4 \<and> list_all is_digit y"
  by (auto simp: digits4_def split: if_splits)

lemma q_digit_Some: "q_digit s = Some (q, r) \<Longrightarrow> \<exists>d. q = [d] \<and> is_digit d"
  by (auto simp: q_digit_def split: list.splits if_splits)

lemma opt_sep_Some: "opt_sep m s = Some g \<Longrightarrow> \<exists>t. m t = Some g"
  by (auto simp: opt_sep_def split: list.splits if_splits option.splits)



lemma match_at_groups:
  assumes "match_at p s = Some g"
  shows "(p = Q_Year \<and> (\<exists>q y. g = [q, y] \<and> group_ok 1 q \<and> group_ok 4 y)) \<or>
         (p = Year_Q \<and> (\<exists>q y. g = [y, q] \<and> group_ok 1 q \<and> group_ok 4 y)) \<or>
         (p = Year_only \<and> (\<exists>y. g = [y] \<and> group_ok 4 y))"
proof (cases p)
  case Q_Year
  with assms obtain q r where q: "q_digit s = Some (q, r)"
    and o: "opt_sep (\<lambda>t. case digits4 t of None \<Rightarrow> None | Some (y, _) \<Rightarrow> Some [q, y]) r = Some g"
    by (auto split: option.splits)
  from opt_sep_Some [OF o] obtain t y r' where "digits4 t = Some (y, r')" and "g = [q, y]"
    by (auto split: option.splits)
  with q Q_Year show ?thesis
    by (auto simp: group_ok_def dest!: digits4_Some q_digit_Some)
next
  case Year_Q
  with assms obtain y r where y: "digits4 s = Some (y, r)"
    and o: "opt_sep (\<lambda>t. case q_digit t of None \<Rightarrow> None | Some (q, _) \<Rightarrow> Some [y, q]) r = Some g"
    by (auto split: option.splits)
  from opt_sep_Some [OF o] obtain t q r' where "q_digit t = Some (q, r')" and "g = [y, q]"
    by (auto split: option.splits)
  with y Year_Q show ?thesis
    by (auto simp: group_ok_def dest!: digits4_Some q_digit_Some)
next
  case Year_only
  with assms show ?thesis
    by (auto simp: group_ok_def split: option.splits dest!: digits4_Some)
qed

lemma re_search_Some: "re_search p s = Some g \<Longrightarrow> \<exists>t. match_at p t = Some g"
  by (induction s) (auto split: option.splits)

lemma group_int:
  "group_ok n g \<Longrightarrow> 0 < n \<Longrightarrow> \<exists>v. py_int g = Some v \<and> 0 \<le> v \<and> v < 10 ^ n"
  using py_int_bounds [of g] by (auto simp: group_ok_def)

lemma try_patterns_returns:
  "\<exists>q y. try_patterns ps s = Inr (q, y) \<and> 0 \<le> q \<and> q \<le> 9 \<and> 0 \<le> y \<and> y \<le> 9999"
proof (induction ps)
  case Nil
  then show ?case by simp
next
  case (Cons p ps)
  show ?case
  proof (cases "re_search p s")
    case None
    with Cons show ?thesis by simp
  next
    case (Some g)
    from re_search_Some [OF Some] obtain t where "match_at p t = Some g" ..
    from match_at_groups [OF this] show ?thesis
    proof (elim disjE conjE exE)
      fix q y assume h: "p = Q_Year" "g = [q, y]" "group_ok 1 q" "group_ok 4 y"
      from group_int [OF h(3)] group_int [OF h(4)] obtain a b where
        "py_int q = Some a" "0 \<le> a" "a < 10" "py_int y = Some b" "0 \<le> b" "b < 10000"
        by auto
      with Some h show ?thesis by (simp add: pattern_startswith_Q_def)
    next
      fix q y assume h: "p = Year_Q" "g = [y, q]" "group_ok 1 q" "group_ok 4 y"
      from group_int [OF h(3)] group_int [OF h(4)] obtain a b where
        "py_int q = Some a" "0 \<le> a" "a < 10" "py_int y = Some b" "0 \<le> b" "b < 10000"
        by auto
      with Some h show ?thesis by (simp add: pattern_startswith_Q_def)
    next
      fix y assume h: "p = Year_only" "g = [y]" "group_ok 4 y"
      from group_int [OF h(3)] obtain b where "py_int y = Some b" "0 \<le> b" "b < 10000"
        by auto
      with Some h show ?thesis by simp
    qed
  qed
qed

subsection \<open>Quarter and year extraction never fails\<close>

text \<open>
  Claim C10. For every text \<open>s = str(purchase_quarter)\<close>, whatever the value was, the body
  of \<open>extract_quarter_year\<close> returns a pair of integers and raises nothing: each captured
  group is a run of digits, so \<^verbatim>\<open>int\<close> converts it; the quarter is a single digit and the
  year has four digits. The handler turns any exception of the body into the default pair
  (1, 2023), so the function returns a pair on every input.
\<close>

theorem extract_quarter_year_total:
  "(\<exists>q y. try_patterns patterns s = Inr (q, y) \<and> extract_quarter_year s = (q, y) \<and>
          0 \<le> q \<and> q \<le> 9 \<and> 0 \<le> y \<and> y \<le> 9999) \<and>
   (\<exists>q y. extract_quarter_year (py_str fstr v) = (q, y) \<and>
          0 \<le> q \<and> q \<le> 9 \<and> 0 \<le> y \<and> y \<le> 9999) \<and>
   except_default (Inl e) = (1, 2023)"
  using try_patterns_returns [of patterns s] try_patterns_returns [of patterns "py_str fstr v"]
  by (auto simp: extract_quarter_year_def except_default_def)

subsection \<open>Price categories\<close>

text \<open>
  The loader's \<open>categorize_price\<close> uses right-closed bins, the cleaner's \<^verbatim>\<open>pd.cut\<close> with
  \<^verbatim>\<open>right=False\<close> uses the right-open bins [0, 2), [2, 5), [5, 10), [10, 20), [20, inf).
  The two agree on every price from 0 on that is no bin edge.
\<close>

lemma categorize_price_right_closed:
  "(categorize_price p = ''0-2Cr'' \<longleftrightarrow> p \<le> 2) \<and>
   (categorize_price p = ''2-5Cr'' \<longleftrightarrow> 2 < p \<and> p \<le> 5) \<and>
   (categorize_price p = ''5-10Cr'' \<longleftrightarrow> 5 < p \<and> p \<le> 10) \<and>
   (categorize_price p = ''10-20Cr'' \<longleftrightarrow> 10 < p \<and> p \<le> 20) \<and>
   (categorize_price p = ''20Cr+'' \<longleftrightarrow> 20 < p)"
  by (simp add: categorize_price_def)

lemma cut_price_right_open:
  "(cut_price (Num p) = Inr (Str ''0-2Cr'') \<longleftrightarrow> 0 \<le> p \<and> p < 2) \<and>
   (cut_price (Num p) = Inr (Str ''2-5Cr'') \<longleftrightarrow> 2 \<le> p \<and> p < 5) \<and>
   (cut_price (Num p) = Inr (Str ''5-10Cr'') \<longleftrightarrow> 5 \<le> p \<and> p < 10) \<and>
   (cut_price (Num p) = Inr (Str ''10-20Cr'') \<longleftrightarrow> 10 \<le> p \<and> p < 20) \<and>
   (cut_price (Num p) = Inr (Str ''20Cr+'') \<longleftrightarrow> 20 \<le> p)"
  by simp

lemma price_paths_agree_off_edges:
  "0 \<le> p \<Longrightarrow> p \<notin> {2, 5, 10, 20} \<Longrightarrow> cut_price (Num p) = Inr (Str (categorize_price p))"
  by (simp add: categorize_price_def)

lemma categorize_price_examples:
  "categorize_price 2 = ''0-2Cr''" "categorize_price 2.01 = ''2-5Cr''"
  "categorize_price 0 = ''0-2Cr''" "categorize_price 25 = ''20Cr+''"
  "cut_price (Num 2) = Inr (Str ''2-5Cr'')" "cut_price (Num (-1)) = Inr NaN"
  by (simp_all add: categorize_price_def)

text \<open>
  Claim C4 does not hold of \<open>categorize_price\<close>: the claim's bins are open on the right,
  so the prices 5, 10 and 20 belong to 5-10Cr, 10-20Cr and 20Cr+, which is what the
  cleaner's \<^verbatim>\<open>pd.cut\<close> gives them; the loader's chain of \<^verbatim>\<open><=\<close> tests puts them one bin
  lower, in 2-5Cr, 5-10Cr and 10-20Cr.
\<close>

theorem categorize_price_edges_diverge:
  "categorize_price 5 = ''2-5Cr'' \<and> categorize_price 10 = ''5-10Cr'' \<and>
   categorize_price 20 = ''10-20Cr'' \<and>
   cut_price (Num 5) = Inr (Str ''5-10Cr'') \<and> cut_price (Num 10) = Inr (Str ''10-20Cr'') \<and>
   cut_price (Num 20) = Inr (Str ''20Cr+'')"
  by (simp add: categorize_price_def)

subsection \<open>The field-access helper\<close>

text \<open>
  Claim C8, as stated, fails on an empty value: the helper only tests \<^verbatim>\<open>pd.isna\<close>, and the
  empty string is not missing, so it is returned instead of the default.
\<close>

theorem get_column_value_empty_counterexample:
  "get_column_value [''builder'' \<mapsto> ''Builder''] [''Builder'' \<mapsto> Str ''''] ''builder''
     (Str ''UNKNOWN'') = Str '''' \<and>
   get_column_value [''builder'' \<mapsto> ''Builder''] [''Builder'' \<mapsto> Str ''''] ''builder''
     (Str ''UNKNOWN'') \<noteq> Str ''UNKNOWN''"
  by (simp add: get_column_value_def isna_def)

text \<open>
  Claim C8, amended. The helper returns the row's value at the mapped column exactly when
  the field is bound in the column map, the column is in the row, and the value is
  neither \<^verbatim>\<open>None\<close> nor NaN; in every other case it returns the default.
\<close>

theorem get_column_value_contract:
  "get_column_value cm row column_type default_value =
     (if \<exists>c v. cm column_type = Some c \<and> row c = Some v \<and> v \<noteq> PNone \<and> v \<noteq> NaN
      then the (row (the (cm column_type)))
      else default_value)"
  by (auto simp: get_column_value_def isna_def split: option.splits)

subsection \<open>Row-count invariance of the cleaning pipeline\<close>

lemma nrows_set_column [simp]: "nrows (set_column k vs f) = nrows f"
  by (simp add: set_column_def)

lemma nrows_set_scalar [simp]: "nrows (set_scalar k v f) = nrows f"
  by (simp add: set_scalar_def)

lemma list_all_update:
  "list_all P al \<Longrightarrow> P (k, v) \<Longrightarrow> list_all P (AList.update k v al)"
  by (induction al) (auto)

lemma wf_set_column:
  "well_formed f \<Longrightarrow> length vs = nrows f \<Longrightarrow> well_formed (set_column k vs f)"
  by (simp add: well_formed_def set_column_def list_all_update)

lemma wf_set_scalar: "well_formed f \<Longrightarrow> well_formed (set_scalar k v f)"
  by (simp add: set_scalar_def wf_set_column)

lemma column_length: "well_formed f \<Longrightarrow> column f k = Some vs \<Longrightarrow> length vs = nrows f"
  by (auto simp: well_formed_def column_def list_all_iff dest!: map_of_SomeD)

lemma column_set_column:
  "column (set_column k vs f) k' = (if k' = k then Some vs else column f k')"
  by (simp add: column_def set_column_def update_conv')

lemma length_astype_str [simp]: "length (astype_str fstr vs) = length vs"
  by (simp add: astype_str_def)

lemma length_str_method [simp]: "length (str_method g vs) = length vs"
  by (simp add: str_method_def)

lemma length_to_numeric [simp]: "length (to_numeric vs) = length vs"
  by (simp add: to_numeric_def)

lemma length_fillna [simp]: "length (fillna v vs) = length vs"
  by (simp add: fillna_def)

lemma length_inplace_fillna [simp]: "length (inplace_fillna cow v vs) = length vs"
  by (simp add: inplace_fillna_def)

lemma length_series_map [simp]: "length (series_map d vs) = length vs"
  by (simp add: series_map_def)

lemma length_all_or_raise: "all_or_raise rs = Inr vs \<Longrightarrow> length vs = length rs"
proof (induction rs arbitrary: vs rule: all_or_raise.induct)
  case 1
  then show ?case by simp
next
  case (2 e rs)
  then show ?case by simp
next
  case (3 v rs)
  then show ?case by (auto split: sum.splits)
qed

lemma length_clean_price_values [simp]: "length (clean_price_values fstr vs) = length vs"
  by (simp add: clean_price_values_def price_cleaning_patterns_def)

lemma preserves_refl: "preserves f f"
  by (simp add: preserves_def)

lemma preserves_trans: "preserves f g \<Longrightarrow> preserves g h \<Longrightarrow> preserves f h"
  by (simp add: preserves_def)

lemma preserves_set_column:
  "(well_formed f \<Longrightarrow> length vs = nrows f) \<Longrightarrow> preserves f (set_column k vs f)"
  by (simp add: preserves_def wf_set_column)

lemma preserves_set_scalar: "preserves f (set_scalar k v f)"
  by (simp add: preserves_def wf_set_scalar)

lemma preserves_set_column_of:
  "column f k' = Some ws \<Longrightarrow> length vs = length ws \<Longrightarrow> preserves f (set_column k vs f)"
  by (rule preserves_set_column) (simp add: column_length)

lemma preserves_fill_mapped: "fill_mapped cow cm f = (e, f') \<Longrightarrow> preserves f f'"
proof (induction cow cm f arbitrary: e f' rule: fill_mapped.induct)
  case (1 cow f)
  then show ?case by (simp add: preserves_refl)
next
  case (2 cow standard_name actual_name rest f)
  show ?case
  proof (cases "column f actual_name")
    case None
    with 2 show ?thesis by simp
  next
    case (Some vs)
    have step: "preserves f (set_column actual_name (inplace_fillna cow v vs) f)" for v
      using Some by (rule preserves_set_column_of) simp
    show ?thesis
    proof (cases "null_count vs > 0")
      case False
      with 2 Some show ?thesis by simp
    next
      case True
      show ?thesis
      proof (cases "standard_name \<in> set [''price'', ''amenity'']")
        case pa: True
        show ?thesis
        proof (cases "median vs")
          case (Inl x)
          with "2.prems" Some True pa show ?thesis by (auto simp: preserves_refl)
        next
          case (Inr m)
          with "2.prems" Some True pa
          have "fill_mapped cow rest (set_column actual_name (inplace_fillna cow m vs) f) = (e, f')" by auto
          from "2.IH"(2) [OF Some True pa Inr this] step show ?thesis
            by (rule preserves_trans [rotated])
        qed
      next
        case npa: False
        show ?thesis
        proof (cases "standard_name = ''booking_status''")
          case bs: True
          with "2.prems" Some True npa
          have "fill_mapped cow rest (set_column actual_name (inplace_fillna cow (Str ''Not Booked'') vs) f) = (e, f')"
            by auto
          from "2.IH"(3) [OF Some True npa bs this] step show ?thesis
            by (rule preserves_trans [rotated])
        next
          case nbs: False
          show ?thesis
          proof (cases "mode0 vs")
            case None
            with "2.prems" Some True npa nbs
            have "fill_mapped cow rest (set_column actual_name (inplace_fillna cow (Str ''Unknown'') vs) f) = (e, f')"
              by auto
            from "2.IH"(4) [OF Some True npa nbs None this] step show ?thesis
              by (rule preserves_trans [rotated])
          next
            case (Some mv)
            with "2.prems" \<open>column f actual_name = Some vs\<close> True npa nbs
            have "fill_mapped cow rest (set_column actual_name (inplace_fillna cow mv vs) f) = (e, f')"
              by auto
            from "2.IH"(5) [OF \<open>column f actual_name = Some vs\<close> True npa nbs Some this] step
            show ?thesis by (rule preserves_trans [rotated])
          qed
        qed
      qed
    qed
  qed
qed

lemma preserves_fill_others: "fill_others cow cs mapped f = (e, f') \<Longrightarrow> preserves f f'"
proof (induction cow cs mapped f arbitrary: e f' rule: fill_others.induct)
  case (1 cow mapped f)
  then show ?case by (simp add: preserves_refl)
next
  case (2 cow col rest mapped f)
  show ?case
  proof (cases "column f col")
    case None
    with 2 show ?thesis by simp
  next
    case (Some vs)
    have step: "preserves f (set_column col (inplace_fillna cow v vs) f)" for v
      using Some by (rule preserves_set_column_of) simp
    show ?thesis
    proof (cases "col \<notin> set mapped \<and> null_count vs > 0")
      case False
      with 2 Some show ?thesis by auto
    next
      case True
      show ?thesis
      proof (cases "numeric_dtype vs")
        case nd: True
        show ?thesis
        proof (cases "median vs")
          case (Inl x)
          with "2.prems" Some True nd show ?thesis by (auto simp: preserves_refl)
        next
          case (Inr m)
          with "2.prems" Some True nd
          have "fill_others cow rest mapped (set_column col (inplace_fillna cow m vs) f) = (e, f')" by auto
          from "2.IH"(2) [OF Some True nd Inr this] step show ?thesis
            by (rule preserves_trans [rotated])
        qed
      next
        case nnd: False
        with "2.prems" Some True
        have "fill_others cow rest mapped (set_column col (inplace_fillna cow (Str ''Unknown'') vs) f) = (e, f')"
          by auto
        from "2.IH"(3) [OF Some True nnd this] step show ?thesis
          by (rule preserves_trans [rotated])
      qed
    qed
  qed
qed

lemma keeps_rows_I:
  assumes "\<And>c. preserves (df c) (df (snd (s c)))"
    and "\<And>c. column_map (snd (s c)) = column_map c"
    and "\<And>c. steps (cleaning_report (snd (s c))) = steps (cleaning_report c)"
  shows "keeps_rows s"
  using assms by (simp add: keeps_rows_def)

lemma keeps_rows_then_do:
  assumes "keeps_rows s1" and "keeps_rows s2"
  shows "keeps_rows (then_do s1 s2)"
proof (rule keeps_rows_I)
  fix c
  obtain e c1 where s1: "s1 c = (e, c1)" by (cases "s1 c")
  from assms(1) have a: "preserves (df c) (df c1)" "column_map c1 = column_map c"
    "steps (cleaning_report c1) = steps (cleaning_report c)"
    using s1 by (auto simp: keeps_rows_def dest: spec [of _ c])
  from assms(2) have b: "preserves (df c1) (df (snd (s2 c1)))"
    "column_map (snd (s2 c1)) = column_map c1"
    "steps (cleaning_report (snd (s2 c1))) = steps (cleaning_report c1)"
    by (auto simp: keeps_rows_def)
  show "preserves (df c) (df (snd (then_do s1 s2 c)))"
    using s1 a b by (cases e) (auto simp: then_do_def intro: preserves_trans)
  show "column_map (snd (then_do s1 s2 c)) = column_map c"
    using s1 a b by (cases e) (auto simp: then_do_def)
  show "steps (cleaning_report (snd (then_do s1 s2 c))) = steps (cleaning_report c)"
    using s1 a b by (cases e) (auto simp: then_do_def)
qed

lemma keeps_rows_on_frame: "(\<And>f. preserves f (g f)) \<Longrightarrow> keeps_rows (on_frame g)"
  by (simp add: keeps_rows_def on_frame_def)

lemma keeps_rows_frame_step:
  "(\<And>f. preserves f (snd (g f))) \<Longrightarrow> keeps_rows (frame_step g)"
  by (simp add: keeps_rows_def frame_step_def split: prod.splits) (metis snd_conv)

lemma mapped_column_Some:
  "mapped_column cm f std = Some (a, vs) \<Longrightarrow> column f a = Some vs"
  by (auto simp: mapped_column_def split: option.splits if_splits)

lemma keeps_rows_clean_price_column: "keeps_rows (clean_price_column cow fstr)"
proof (rule keeps_rows_I)
  fix c
  show "column_map (snd (clean_price_column cow fstr c)) = column_map c"
    by (simp add: clean_price_column_def Let_def split: option.splits sum.splits)
  show "steps (cleaning_report (snd (clean_price_column cow fstr c))) = steps (cleaning_report c)"
    by (simp add: clean_price_column_def Let_def split: option.splits sum.splits)
  show "preserves (df c) (df (snd (clean_price_column cow fstr c)))"
  proof (cases "get_column c ''price''")
    case None
    then show ?thesis by (simp add: clean_price_column_def preserves_refl)
  next
    case (Some pc)
    show ?thesis
    proof (cases "column (df c) pc")
      case None
      with Some show ?thesis by (simp add: clean_price_column_def preserves_refl)
    next
      case col: (Some vs)
      have w: "well_formed (df c) \<Longrightarrow> length vs = nrows (df c)"
        using col by (simp add: column_length)
      have q: "preserves (df c) (set_column k ws g)"
        if "length ws = length vs" "preserves (df c) g" for k ws g
        using that w by (auto simp: preserves_def wf_set_column)
      show ?thesis using Some col
        by (auto simp: clean_price_column_def Let_def preserves_refl
            split: sum.splits intro!: q)
    qed
  qed
qed

lemma keeps_rows_handle_missing_values: "keeps_rows (handle_missing_values cow)"
proof (rule keeps_rows_I)
  fix c
  show "column_map (snd (handle_missing_values cow c)) = column_map c"
    by (simp add: handle_missing_values_def split: prod.splits option.splits)
  show "steps (cleaning_report (snd (handle_missing_values cow c))) = steps (cleaning_report c)"
    by (simp add: handle_missing_values_def split: prod.splits option.splits)
  show "preserves (df c) (df (snd (handle_missing_values cow c)))"
    by (auto simp: handle_missing_values_def split: prod.splits option.splits
        dest: preserves_fill_mapped preserves_fill_others intro: preserves_trans)
qed

lemma preserves_normalize_field: "preserves f (normalize_field fstr cm std f)"
  by (auto simp: normalize_field_def Let_def preserves_refl split: option.splits
      dest!: mapped_column_Some intro!: preserves_set_column_of)

lemma preserves_fold:
  "(\<And>x f. preserves f (g x f)) \<Longrightarrow> preserves f (fold g xs f)"
  by (induction xs arbitrary: f) (auto simp: preserves_refl intro: preserves_trans)

lemma keeps_rows_normalize_text_fields: "keeps_rows (normalize_text_fields fstr)"
  by (rule keeps_rows_I)
    (simp_all add: normalize_text_fields_def preserves_fold preserves_normalize_field)

lemma preserves_feature_booking_flag: "preserves f (feature_booking_flag fstr cm f)"
  by (auto simp: feature_booking_flag_def preserves_set_scalar split: option.splits
      dest!: mapped_column_Some intro!: preserves_set_column_of)

lemma preserves_feature_carpet_area: "preserves f (feature_carpet_area cm f)"
  by (auto simp: feature_carpet_area_def preserves_set_scalar preserves_refl split: option.splits
      dest!: mapped_column_Some intro!: preserves_set_column_of)

lemma preserves_feature_price_per_sqft: "preserves f (snd (feature_price_per_sqft f))"
proof -
  have "preserves f (set_column k vs f)"
    if "column f ''Ticket_Price_Cr'' = Some tp" "column f ''Carpet_Area_Sqft'' = Some ca"
      "all_or_raise (map2 price_per_sqft_of tp ca) = Inr vs" for k vs tp ca
  proof (rule preserves_set_column)
    assume "well_formed f"
    with that(1,2) have "length tp = nrows f" "length ca = nrows f"
      by (simp_all add: column_length)
    with length_all_or_raise [OF that(3)] show "length vs = nrows f" by simp
  qed
  then show ?thesis
    by (auto simp: feature_price_per_sqft_def preserves_refl split: option.splits sum.splits)
qed

lemma preserves_feature_quarter_year: "preserves f (snd (feature_quarter_year cm f))"
proof (cases "mapped_column cm f ''purchase_quarter''")
  case None
  have "preserves f (set_scalar ''Quarter_Number'' (Num 1) f)" by (rule preserves_set_scalar)
  moreover have "preserves (set_scalar ''Quarter_Number'' (Num 1) f)
     (set_scalar ''Year'' (Num 2023) (set_scalar ''Quarter_Number'' (Num 1) f))"
    by (rule preserves_set_scalar)
  ultimately show ?thesis using None
    by (auto simp: feature_quarter_year_def intro: preserves_trans)
next
  case (Some p)
  obtain a vs where p: "p = (a, vs)" by (cases p)
  with Some have col: "column f a = Some vs" by (simp add: mapped_column_Some)
  have w: "well_formed f \<Longrightarrow> length vs = nrows f" using col by (simp add: column_length)
  have "preserves f (set_column k2 ws2 (set_column k1 ws1 f))"
    if "length ws1 = length vs" "length ws2 = length vs" for k1 k2 ws1 ws2
    using that w by (auto simp: preserves_def wf_set_column)
  then show ?thesis using Some p
    by (auto simp: feature_quarter_year_def Let_def preserves_refl)
qed

lemma preserves_feature_price_category: "preserves f (snd (feature_price_category f))"
proof -
  have "preserves f (set_column k vs f)"
    if "column f ''Ticket_Price_Cr'' = Some tp" "all_or_raise (map cut_price tp) = Inr vs"
    for k vs tp
    using that(1) by (rule preserves_set_column_of) (use length_all_or_raise [OF that(2)] in simp)
  then show ?thesis
    by (auto simp: feature_price_category_def preserves_refl split: option.splits sum.splits)
qed

lemma preserves_feature_season: "preserves f (feature_season f)"
  by (auto simp: feature_season_def preserves_refl split: option.splits
      intro!: preserves_set_column_of)

lemma keeps_rows_create_new_features: "keeps_rows (create_new_features fstr)"
proof -
  have chain: "keeps_rows
     (then_do (on_frame (feature_booking_flag fstr cm))
       (then_do (on_frame (feature_carpet_area cm))
          (then_do (frame_step feature_price_per_sqft)
             (then_do (frame_step (feature_quarter_year cm))
                (then_do (frame_step feature_price_category)
                   (on_frame feature_season))))))" for cm
    by (intro keeps_rows_then_do keeps_rows_on_frame keeps_rows_frame_step
        preserves_feature_booking_flag preserves_feature_carpet_area
        preserves_feature_price_per_sqft preserves_feature_quarter_year
        preserves_feature_price_category preserves_feature_season)
  show ?thesis
    unfolding keeps_rows_def
  proof (intro allI)
    fix c
    from chain [of "column_map c", unfolded keeps_rows_def, THEN spec, of c] show "preserves (df c) (df (snd (create_new_features fstr c))) \<and>
       column_map (snd (create_new_features fstr c)) = column_map c \<and>
       steps (cleaning_report (snd (create_new_features fstr c))) = steps (cleaning_report c)"
      by (simp add: create_new_features_def)
  qed
qed

lemma keeps_rows_validate_data: "keeps_rows validate_data"
  by (rule keeps_rows_I) (simp_all add: validate_data_def Let_def preserves_refl)

lemma keeps_rows_cleaning_steps:
  "named \<in> set (cleaning_steps cow fstr) \<Longrightarrow> keeps_rows (snd named)"
  by (auto simp: cleaning_steps_def keeps_rows_clean_price_column
      keeps_rows_handle_missing_values keeps_rows_normalize_text_fields
      keeps_rows_create_new_features keeps_rows_validate_data)

lemma run_step_keeps:
  assumes "keeps_rows (snd named)"
  shows "preserves (df c) (df (run_step named c))"
    and "column_map (run_step named c) = column_map c"
    and "\<exists>st. steps (cleaning_report (run_step named c)) =
           AList.update (fst named) (0, st) (steps (cleaning_report c))"
proof -
  obtain e c1 where s: "snd named c = (e, c1)" by (cases "snd named c")
  from assms have k: "preserves (df c) (df c1)" "column_map c1 = column_map c"
    "steps (cleaning_report c1) = steps (cleaning_report c)"
    using s by (auto simp: keeps_rows_def dest: spec [of _ c])
  then have n: "nrows (df c1) = nrows (df c)" by (simp add: preserves_def)
  show "preserves (df c) (df (run_step named c))"
    using s k by (cases e) (simp_all add: run_step_def record_step_def)
  show "column_map (run_step named c) = column_map c"
    using s k by (cases e) (simp_all add: run_step_def record_step_def)
  show "\<exists>st. steps (cleaning_report (run_step named c)) =
           AList.update (fst named) (0, st) (steps (cleaning_report c))"
    using s k n by (cases e) (auto simp: run_step_def record_step_def)
qed

lemma run_steps_preserves:
  "(\<And>named. named \<in> set ss \<Longrightarrow> keeps_rows (snd named)) \<Longrightarrow>
   preserves (df c) (df (run_steps ss c))"
proof (induction ss arbitrary: c)
  case Nil
  then show ?case by (simp add: preserves_refl)
next
  case (Cons named ss)
  have "preserves (df c) (df (run_step named c))"
    by (rule run_step_keeps) (simp add: Cons.prems)
  moreover have "preserves (df (run_step named c)) (df (run_steps ss (run_step named c)))"
    by (rule Cons.IH) (simp add: Cons.prems)
  ultimately show ?case by (auto intro: preserves_trans)
qed

lemma run_steps_other:
  "(\<And>named. named \<in> set ss \<Longrightarrow> keeps_rows (snd named)) \<Longrightarrow> n \<notin> fst ` set ss \<Longrightarrow>
   map_of (steps (cleaning_report (run_steps ss c))) n = map_of (steps (cleaning_report c)) n"
proof (induction ss arbitrary: c)
  case Nil
  then show ?case by simp
next
  case (Cons named ss)
  from run_step_keeps(3) [of named c] Cons.prems obtain st where
    "steps (cleaning_report (run_step named c)) =
       AList.update (fst named) (0, st) (steps (cleaning_report c))" by auto
  moreover have "map_of (steps (cleaning_report (run_steps ss (run_step named c)))) n =
      map_of (steps (cleaning_report (run_step named c))) n"
    using Cons.prems by (intro Cons.IH) auto
  ultimately show ?case using Cons.prems(2) by (simp add: update_conv')
qed

lemma run_steps_recorded:
  "(\<And>named. named \<in> set ss \<Longrightarrow> keeps_rows (snd named)) \<Longrightarrow> n \<in> fst ` set ss \<Longrightarrow>
   \<exists>st. map_of (steps (cleaning_report (run_steps ss c))) n = Some (0, st)"
proof (induction ss arbitrary: c)
  case Nil
  then show ?case by simp
next
  case (Cons named ss)
  show ?case
  proof (cases "n \<in> fst ` set ss")
    case True
    then show ?thesis using Cons.prems(1) by (simp add: Cons.IH)
  next
    case False
    with Cons.prems(2) have n: "n = fst named" by auto
    from run_step_keeps(3) [of named c] Cons.prems obtain st where
      "steps (cleaning_report (run_step named c)) =
         AList.update (fst named) (0, st) (steps (cleaning_report c))" by auto
    then have "map_of (steps (cleaning_report (run_step named c))) n = Some (0, st)"
      using n by (simp add: update_conv')
    moreover have "map_of (steps (cleaning_report (run_steps ss (run_step named c)))) n =
        map_of (steps (cleaning_report (run_step named c))) n"
      using Cons.prems(1) False by (intro run_steps_other) auto
    ultimately show ?thesis by simp
  qed
qed

text \<open>
  Claim C5. No stage adds or removes rows. Each of the five stages (price cleaning,
  missing-value handling, text normalization, feature engineering, validation), run on
  any state whose frame is well formed, leaves a frame with the same number of rows in
  which every column still has one cell per row, whether the stage returns or raises.
  So the row count after each prefix of the pipeline, and after the whole of
  \<open>clean_data\<close>, equals the row count of the input, and the entry the orchestrator
  writes for each of the five steps has zero rows affected.
\<close>

theorem row_count_invariance:
  assumes "well_formed (df c)"
  shows "list_all (\<lambda>named. nrows (df (snd (snd named c))) = nrows (df c) \<and>
                             well_formed (df (snd (snd named c)))) (cleaning_steps cow fstr) \<and>
         nrows (df (run_steps (take k (cleaning_steps cow fstr)) c)) = nrows (df c) \<and>
         well_formed (df (run_steps (take k (cleaning_steps cow fstr)) c)) \<and>
         nrows (df (clean_data cow fstr c)) = nrows (df c) \<and>
         well_formed (df (clean_data cow fstr c)) \<and>
         list_all (\<lambda>n. \<exists>st. map_of (steps (cleaning_report (clean_data cow fstr c))) n = Some (0, st))
           (map fst (cleaning_steps cow fstr))"
proof -
  have each: "nrows (df (snd (snd named c))) = nrows (df c) \<and> well_formed (df (snd (snd named c)))"
    if "named \<in> set (cleaning_steps cow fstr)" for named
    using keeps_rows_cleaning_steps [OF that] assms
    by (auto simp: keeps_rows_def preserves_def)
  have "preserves (df c) (df (run_steps (take k (cleaning_steps cow fstr)) c))"
    by (rule run_steps_preserves) (auto dest: in_set_takeD keeps_rows_cleaning_steps)
  then have prefix: "nrows (df (run_steps (take k (cleaning_steps cow fstr)) c)) = nrows (df c)"
    "well_formed (df (run_steps (take k (cleaning_steps cow fstr)) c))"
    using assms by (simp_all add: preserves_def)
  define c0 where
    "c0 = c\<lparr>cleaning_report := (cleaning_report c)\<lparr>initial_shape := Some (shape (df c))\<rparr>\<rparr>"
  have "preserves (df c0) (df (run_steps (cleaning_steps cow fstr) c0))"
    by (rule run_steps_preserves) (auto dest: keeps_rows_cleaning_steps)
  then have whole: "nrows (df (clean_data cow fstr c)) = nrows (df c)"
    "well_formed (df (clean_data cow fstr c))"
    using assms by (simp_all add: preserves_def clean_data_def Let_def c0_def)
  have "\<exists>st. map_of (steps (cleaning_report (run_steps (cleaning_steps cow fstr) c0))) n = Some (0, st)"
    if "n \<in> fst ` set (cleaning_steps cow fstr)" for n
    using _ that by (rule run_steps_recorded) (auto dest: keeps_rows_cleaning_steps)
  then have entries:
    "list_all (\<lambda>n. \<exists>st. map_of (steps (cleaning_report (clean_data cow fstr c))) n = Some (0, st))
           (map fst (cleaning_steps cow fstr))"
    by (simp add: list_all_iff clean_data_def Let_def c0_def)
  from each prefix whole entries show ?thesis by (simp add: list_all_iff)
qed

theorem row_count_invariance_witness:
  "well_formed (df (new_cleaner price_example)) \<and>
   nrows (df (run_steps (take 3 (cleaning_steps False plain_fstr)) (new_cleaner price_example))) = 4 \<and>
   nrows (df (clean_data False plain_fstr (new_cleaner price_example))) = 4 \<and>
   well_formed (df (clean_data False plain_fstr (new_cleaner price_example)))"
proof -
  have w: "well_formed (df (new_cleaner price_example))"
    by (simp add: new_cleaner_def price_example_def well_formed_def)
  have n: "nrows (df (new_cleaner price_example)) = 4"
    by (simp add: new_cleaner_def price_example_def)
  from row_count_invariance [OF w, where cow = False and fstr = plain_fstr and k = 3] w n show ?thesis by simp
qed

subsection \<open>Cleaning the price column\<close>

lemma clean_price_values_eq:
  "clean_price_values fstr vs = map (\<lambda>v. cell_of (parsed_price fstr v)) vs"
  by (simp add: clean_price_values_def price_cleaning_patterns_def astype_str_def
      str_method_def to_numeric_def parsed_price_def clean_price_text_def cell_of_def comp_def)

lemma finite_values_cell_of:
  "finite_values (map (\<lambda>v. cell_of (g v)) vs) = List.map_filter g vs"
  by (induction vs) (auto simp: finite_values_def List.map_filter_def cell_of_def split: option.splits)

lemma present_cell_of:
  "length (filter (\<lambda>v. \<not> isna v) (map (\<lambda>v. cell_of (g v)) vs)) = length (List.map_filter g vs)"
  by (induction vs) (auto simp: List.map_filter_def cell_of_def isna_def split: option.splits)

lemma no_neg_cell_of: "filter (\<lambda>v. v = NegInf) (map (\<lambda>v. cell_of (g v)) vs) = []"
  by (induction vs) (auto simp: cell_of_def split: option.splits)

lemma no_str_cell_of: "\<not> list_ex is_str_cell (map (\<lambda>v. cell_of (g v)) vs)"
  by (induction vs) (auto simp: cell_of_def is_str_cell_def split: option.splits)

lemma kth_value_cell_of:
  "k < length (List.map_filter g vs) \<Longrightarrow>
   kth_value (map (\<lambda>v. cell_of (g v)) vs) k = Num (sort (List.map_filter g vs) ! k)"
  by (simp add: kth_value_def Let_def no_neg_cell_of finite_values_cell_of)

lemma median_cell_of:
  "median (map (\<lambda>v. cell_of (g v)) vs) =
     Inr (if List.map_filter g vs = [] then NaN else Num (median_of (List.map_filter g vs)))"
proof -
  define ws where "ws = map (\<lambda>v. cell_of (g v)) vs"
  define xs where "xs = List.map_filter g vs"
  define n where "n = length xs"
  have str: "\<not> list_ex is_str_cell ws" unfolding ws_def by (rule no_str_cell_of)
  have len: "length (filter (\<lambda>v. \<not> isna v) ws) = n"
    unfolding ws_def n_def xs_def by (rule present_cell_of)
  have kth: "kth_value ws k = Num (sort xs ! k)" if "k < n" for k
    using that unfolding ws_def n_def xs_def by (rule kth_value_cell_of)
  have m: "median ws = (if n = 0 then Inr NaN
       else if odd n then Inr (kth_value ws (n div 2))
       else Inr (mean2 (kth_value ws (n div 2 - 1)) (kth_value ws (n div 2))))"
    unfolding median_def using str len by (simp add: Let_def)
  show ?thesis
  proof (cases "n = 0")
    case True
    with m show ?thesis by (simp add: ws_def xs_def n_def)
  next
    case False
    then have "n div 2 < n" "n div 2 - 1 < n" by simp_all
    moreover from False have "xs \<noteq> []" by (simp add: n_def)
    ultimately show ?thesis using m False
      unfolding ws_def [symmetric] xs_def [symmetric]
      by (simp add: kth median_of_def Let_def n_def [symmetric])
  qed
qed

lemma fillna_cell_of:
  "fillna (Num m) (map (\<lambda>v. cell_of (g v)) vs) =
     map (\<lambda>v. case g v of Some x \<Rightarrow> Num x | None \<Rightarrow> Num m) vs"
  by (auto simp: fillna_def isna_def cell_of_def split: option.splits)

lemma fillna_NaN [simp]: "fillna NaN vs = vs"
  by (simp add: fillna_def isna_def)

text \<open>
  What \<open>clean_price_column\<close> leaves in a bound price column: it raises nothing; every
  cell that parses holds its number; a cell that does not parse holds the median of the
  parsed values when the fill reaches the frame and there is such a value, and stays NaN
  otherwise.
\<close>

lemma clean_price_column_result:
  assumes "get_column c ''price'' = Some pc" and "pc \<noteq> []" and "column (df c) pc = Some vs"
  shows "\<exists>c'. clean_price_column cow fstr c = (None, c') \<and>
           column (df c') pc =
             Some (map (\<lambda>v. case parsed_price fstr v of
                               Some x \<Rightarrow> Num x
                             | None \<Rightarrow>
                                 (if cow \<or> List.map_filter (parsed_price fstr) vs = [] then NaN
                                  else Num (median_of (List.map_filter (parsed_price fstr) vs)))) vs)"
proof -
  have neq: "''original_'' @ pc \<noteq> pc" by (metis append_self_conv2 list.discI)
  have unfilled: "map (\<lambda>v. cell_of (parsed_price fstr v)) vs =
      map (\<lambda>v. case parsed_price fstr v of Some x \<Rightarrow> Num x | None \<Rightarrow> NaN) vs"
    by (simp add: cell_of_def)
  show ?thesis
  proof (cases "cow \<or> List.map_filter (parsed_price fstr) vs = []")
    case True
    with assms neq unfilled show ?thesis
      by (auto simp: clean_price_column_def Let_def clean_price_values_eq median_cell_of
          column_set_column inplace_fillna_def)
  next
    case False
    with assms neq show ?thesis
      by (auto simp: clean_price_column_def Let_def clean_price_values_eq median_cell_of
          column_set_column fillna_cell_of inplace_fillna_def)
  qed
qed

lemma median_backfill_without_copy_on_write:
  assumes "get_column c ''price'' = Some pc" and "pc \<noteq> []" and "column (df c) pc = Some vs"
    and "List.map_filter (parsed_price fstr) vs \<noteq> []"
  shows "\<exists>c'. clean_price_column False fstr c = (None, c') \<and>
            column (df c') pc =
              Some (map (\<lambda>v. case parsed_price fstr v of
                                Some x \<Rightarrow> Num x
                              | None \<Rightarrow> Num (median_of (List.map_filter (parsed_price fstr) vs)))
                      vs)"
  using clean_price_column_result [OF assms(1-3), of False fstr] assms(4)
  by (simp cong del: option.case_cong_weak)

lemma no_backfill_under_copy_on_write:
  assumes "get_column c ''price'' = Some pc" and "pc \<noteq> []" and "column (df c) pc = Some vs"
  shows "\<exists>c'. clean_price_column True fstr c = (None, c') \<and>
            column (df c') pc = Some (map (\<lambda>v. cell_of (parsed_price fstr v)) vs)"
  using clean_price_column_result [OF assms, of True fstr]
  by (simp add: cell_of_def cong del: option.case_cong_weak)

lemma median_backfill_text_column:
  "column (df (snd (clean_price_column False fstr (new_cleaner price_text_example)))) ''Price'' =
     Some [Num 1, Num 3, Num 3, Num 5] \<and>
   column (df (snd (clean_price_column True fstr (new_cleaner price_text_example)))) ''Price'' =
     Some [Num 1, Num 3, NaN, Num 5]"
  by code_simp

text \<open>A no-break space between the number and the unit is white space to \<^verbatim>\<open>\s+\<close>.\<close>

lemma price_with_no_break_space:
  "clean_price_values fstr [Str (''2.5'' @ [CHR 0xC2, CHR 0xA0] @ ''Cr''), Str ''1''] =
     [Num 2.5, Num 1]"
  by code_simp

text \<open>
  Claim C7 does not hold of \<open>clean_price_column\<close> when pandas runs with copy-on-write:
  \<^verbatim>\<open>self.df[price_col].fillna(price_median, inplace=True)\<close> then fills a temporary copy, so
  in the price column [1, 3, null, 5] the null stays missing after the stage, and after
  the whole pipeline, whose missing-value stage fills in the same way. Without
  copy-on-write the null is filled with 3, as the claim says.
\<close>

theorem median_backfill_lost_under_copy_on_write:
  "column (df (snd (clean_price_column True plain_fstr (new_cleaner price_example)))) ''Price'' =
     Some [Num 1, Num 3, NaN, Num 5] \<and>
   column (df (clean_data True plain_fstr (new_cleaner price_example))) ''Price'' =
     Some [Num 1, Num 3, NaN, Num 5] \<and>
   column (df (snd (clean_price_column False plain_fstr (new_cleaner price_example)))) ''Price'' =
     Some [Num 1, Num 3, Num 3, Num 5]"
  by code_simp

subsection \<open>A price column in which nothing parses\<close>

text \<open>
  Claim C6, as stated, fails: on a price column in which no value parses, the stage raises
  no error and the orchestrator records the step as a success with nothing reported,
  with and without copy-on-write.
\<close>

theorem unparseable_price_column_counterexample:
  "fst (clean_price_column False plain_fstr (new_cleaner unparseable_example)) = None \<and>
   map_of (steps (cleaning_report (clean_data False plain_fstr (new_cleaner unparseable_example))))
     ''price_cleaning'' = Some (0, Success) \<and>
   fst (clean_price_column True plain_fstr (new_cleaner unparseable_example)) = None \<and>
   map_of (steps (cleaning_report (clean_data True plain_fstr (new_cleaner unparseable_example))))
     ''price_cleaning'' = Some (0, Success)"
  by code_simp

text \<open>
  Claim C6, amended. When zero values of the price column parse, the median is NaN and the
  stage leaves the column entirely unfilled (every cell NaN) rather than filling any
  value; it raises no error, and the orchestrator records the step as a success.
\<close>

theorem unparseable_price_column:
  assumes "get_column c ''price'' = Some pc" and "pc \<noteq> []" and "column (df c) pc = Some vs"
    and "list_all (\<lambda>v. parsed_price fstr v = None) vs"
  shows "(\<exists>c'. clean_price_column cow fstr c = (None, c') \<and>
            column (df c') pc = Some (replicate (length vs) NaN)) \<and>
         median (clean_price_values fstr vs) = Inr NaN \<and>
         map_of (steps (cleaning_report
                   (run_step (''price_cleaning'', clean_price_column cow fstr) c)))
           ''price_cleaning'' = Some (0, Success)"
proof -
  from assms(4) have none: "List.map_filter (parsed_price fstr) vs = []"
    by (induction vs) (auto simp: List.map_filter_def)
  from assms(4) have "map (\<lambda>v. case parsed_price fstr v of Some x \<Rightarrow> Num x | None \<Rightarrow> NaN) vs =
      replicate (length vs) NaN"
    by (induction vs) auto
  with clean_price_column_result [OF assms(1-3), of cow fstr] none
  obtain c' where c': "clean_price_column cow fstr c = (None, c')"
    "column (df c') pc = Some (replicate (length vs) NaN)" by auto
  from keeps_rows_clean_price_column [of cow fstr] c' have "nrows (df c') = nrows (df c)"
    by (auto simp: keeps_rows_def preserves_def dest: spec [of _ c])
  moreover have "median (clean_price_values fstr vs) = Inr NaN"
    by (simp add: clean_price_values_eq median_cell_of none)
  ultimately show ?thesis using c'
    by (simp add: run_step_def record_step_def update_conv')
qed

theorem unparseable_price_column_witness:
  "get_column (new_cleaner unparseable_example) ''price'' = Some ''Price'' \<and>
   column (df (new_cleaner unparseable_example)) ''Price'' = Some [Str ''bad'', Str ''n/a''] \<and>
   list_all (\<lambda>v. parsed_price plain_fstr v = None) [Str ''bad'', Str ''n/a''] \<and>
   (\<exists>c'. clean_price_column False plain_fstr (new_cleaner unparseable_example) = (None, c') \<and>
         column (df c') ''Price'' = Some [NaN, NaN])"
proof -
  have a: "get_column (new_cleaner unparseable_example) ''price'' = Some ''Price''" by code_simp
  have b: "''Price'' \<noteq> []" by simp
  have c: "column (df (new_cleaner unparseable_example)) ''Price'' = Some [Str ''bad'', Str ''n/a'']"
    by code_simp
  have p: "parsed_price plain_fstr (Str ''bad'') = None" "parsed_price plain_fstr (Str ''n/a'') = None"
    by code_simp+
  then have d: "list_all (\<lambda>v. parsed_price plain_fstr v = None) [Str ''bad'', Str ''n/a'']"
    by simp
  from unparseable_price_column [OF a b c d, of False] a c d show ?thesis
    by (simp add: numeral_2_eq_2)
qed

subsection \<open>The derived fields of the loader and of the cleaner\<close>

lemma contains_longer:
  "str_contains u q \<Longrightarrow> prefix p q \<Longrightarrow> str_contains u p"
  by (meson prefix_imp_sublist str_contains_sublist sublist_order.order_trans)

text \<open>
  Claim C1 does not hold of \<open>calculate_carpet_area\<close>: the loop returns at the first
  pattern of the table that occurs in the text, and 2BHK comes before 2BHK+STUDY, so
  the configuration "2BHK+Study" yields 950, not 1100. The three +STUDY entries of the
  table can never be returned. The cleaner, which looks the whole configuration up in the
  same table, gives 1100.
\<close>

theorem carpet_area_study_shadowed:
  "calculate_carpet_area ''2BHK+Study'' = 950 \<and>
   calculate_carpet_area s \<notin> {1100, 1400, 1800} \<and>
   series_map cleaner_area_map [Str ''2BHK+STUDY''] = [Num 1100]"
proof -
  have a: "calculate_carpet_area ''2BHK+Study'' = 950" by code_simp
  have b: "series_map cleaner_area_map [Str ''2BHK+STUDY''] = [Num 1100]" by code_simp
  define u where "u = str_upper s"
  have "str_contains u ''2BHK+STUDY'' \<Longrightarrow> str_contains u ''2BHK''"
    "str_contains u ''3BHK+STUDY'' \<Longrightarrow> str_contains u ''3BHK''"
    "str_contains u ''4BHK+STUDY'' \<Longrightarrow> str_contains u ''4BHK''"
    by (erule contains_longer, simp)+
  then have "area_loop area_map u \<notin> {1100, 1400, 1800}"
    by (auto simp: area_map_def)
  with a b show ?thesis by (simp add: calculate_carpet_area_def u_def)
qed

lemma carpet_area_examples:
  "calculate_carpet_area ''3BHK'' = 1250" "calculate_carpet_area ''Penthouse'' = 1000"
  "calculate_carpet_area ''UNKNOWN'' = 1000" "calculate_carpet_area ''None'' = 1000"
  by code_simp+

text \<open>
  Claim C2 does not hold of the cleaner's \<^verbatim>\<open>Booking_Flag\<close>: its list of booked statuses
  has only "booked", "confirmed", "sold" and "yes", so the statuses "1" and "True" get the
  flag 0, while \<open>calculate_booking_flag\<close> of the loader gives them 1.
\<close>

theorem cleaner_booking_flag_misses:
  "booking_flag_of fstr (Str ''1'') = Num 0 \<and> booking_flag_of fstr (Str ''True'') = Num 0 \<and>
   calculate_booking_flag ''1'' = 1 \<and> calculate_booking_flag ''True'' = 1"
  by (simp add: booking_flag_of_def calculate_booking_flag_def booked_statuses_def
      str_lower_def lower_c_def)

lemma calculate_booking_flag_iff:
  "calculate_booking_flag s = 1 \<longleftrightarrow>
     str_lower s \<in> {''booked'', ''confirmed'', ''sold'', ''yes'', ''true'', ''1''}"
  "calculate_booking_flag s = 0 \<or> calculate_booking_flag s = 1"
  by (simp_all add: calculate_booking_flag_def booked_statuses_def)

lemma calculate_booking_flag_examples:
  "calculate_booking_flag ''BOOKED'' = 1" "calculate_booking_flag ''1'' = 1"
  "calculate_booking_flag ''pending'' = 0" "calculate_booking_flag '''' = 0"
  by code_simp+

text \<open>
  Claim C3 does not hold of the cleaner's \<^verbatim>\<open>Quarter_Number\<close> and \<^verbatim>\<open>Year\<close>: it extracts
  with the pattern "Q digit, year" only, and its alternative pattern is reached only for a
  frame with no rows. So "2023-Q3" gives quarter 1 and year 2023, and "2022" gives year
  2023, while \<open>extract_quarter_year\<close> of the loader gives (3, 2023) and (1, 2022).
\<close>

theorem cleaner_quarter_year_misses:
  "feature_quarter_year [(''purchase_quarter'', ''Quarter'')] quarter_example =
     (None,
      \<lparr>nrows = 2,
       cols = [(''Quarter'', [Str ''2023-Q3'', Str ''2022'']),
               (''Quarter_Number'', [Num 1, Num 1]),
               (''Year'', [Num 2023, Num 2023])]\<rparr>) \<and>
   extract_quarter_year ''2023-Q3'' = (3, 2023) \<and> extract_quarter_year ''2022'' = (1, 2022)"
  by code_simp

lemma extract_quarter_year_examples:
  "extract_quarter_year ''Q1_2023'' = (1, 2023)" "extract_quarter_year ''2023-Q3'' = (3, 2023)"
  "extract_quarter_year ''2023'' = (1, 2023)" "extract_quarter_year ''garbage'' = (1, 2023)"
  by code_simp+

text \<open>
  Claim C9 does not hold of the cleaner's \<^verbatim>\<open>Price_per_Sqft\<close>: it divides by the area
  without testing it. On a frame that already has a \<^verbatim>\<open>Carpet_Area_Sqft\<close> column with the
  areas 0 and -1000, the results are infinity and -10000, not zero; the loader's
  \<open>calculate_price_per_sqft\<close> returns zero for both.
\<close>

theorem cleaner_price_per_sqft_unguarded:
  "feature_price_per_sqft area_example =
     (None,
      \<lparr>nrows = 2,
       cols = [(''Ticket_Price_Cr'', [Num 2.5, Num 1]),
               (''Carpet_Area_Sqft'', [Num 0, Num (-1000)]),
               (''Price_per_Sqft'', [PosInf, Num (-10000)])]\<rparr>) \<and>
   calculate_price_per_sqft 2.5 0 = 0 \<and> calculate_price_per_sqft 1 (-1000) = 0"
  by code_simp

lemma calculate_price_per_sqft_guard:
  "0 < carpet_area \<Longrightarrow>
     calculate_price_per_sqft ticket_price carpet_area =
       ticket_price * 10000000 / real_of_int carpet_area"
  "carpet_area \<le> 0 \<Longrightarrow> calculate_price_per_sqft ticket_price carpet_area = 0"
  by (simp_all add: calculate_price_per_sqft_def)

text \<open>
  The three divergences of the cleaner, on one table run through the whole pipeline, with
  and without copy-on-write: the statuses "1" and "true", the quarters "2023-Q3" and
  "2022", and the areas 0 and -1000 reach the feature stage as they are (up to the title
  case of "True").
\<close>

lemma cleaner_pipeline_divergences:
  "cols (df (clean_data False plain_fstr (new_cleaner divergence_example))) = divergence_result \<and>
   cols (df (clean_data True plain_fstr (new_cleaner divergence_example))) = divergence_result"
  by code_simp

end
